theory Spec2Isabelle
  imports Main "HOL-Library.Word"
begin

section \<open>Go library functions used by the program\<close>

text \<open>
  Go strings are byte sequences, modelled as \<open>string\<close>.  The functions of the standard
  library that the program calls on them are modelled by what their documentation
  says.  \<open>TrimLeft s cutset\<close> removes the leading characters of \<open>s\<close> that occur in
  \<open>cutset\<close>, \<open>Trim\<close> does so at both ends, \<open>Contains s sub\<close> tells whether \<open>sub\<close> occurs
  in \<open>s\<close> as a contiguous run, \<open>TrimSuffix\<close> removes one trailing occurrence of its
  second argument, and \<open>ToLower\<close> is taken on its ASCII part (bytes outside \<open>A..Z\<close>
  stay as they are).
\<close>

definition TrimLeft :: "string \<Rightarrow> string \<Rightarrow> string" where
  "TrimLeft s cutset = dropWhile (\<lambda>ch. ch \<in> set cutset) s"

definition TrimRight :: "string \<Rightarrow> string \<Rightarrow> string" where
  "TrimRight s cutset = rev (dropWhile (\<lambda>ch. ch \<in> set cutset) (rev s))"

definition Trim :: "string \<Rightarrow> string \<Rightarrow> string" where
  "Trim s cutset = TrimRight (TrimLeft s cutset) cutset"

fun HasPrefix :: "string \<Rightarrow> string \<Rightarrow> bool" where
  "HasPrefix s [] = True"
| "HasPrefix [] (p # ps) = False"
| "HasPrefix (c # cs) (p # ps) = (c = p \<and> HasPrefix cs ps)"

fun Contains :: "string \<Rightarrow> string \<Rightarrow> bool" where
  "Contains [] sub = (sub = [])"
| "Contains (c # cs) sub = (HasPrefix (c # cs) sub \<or> Contains cs sub)"

definition lowerChar :: "char \<Rightarrow> char" where
  "lowerChar ch =
     (case map_of (zip ''ABCDEFGHIJKLMNOPQRSTUVWXYZ'' ''abcdefghijklmnopqrstuvwxyz'') ch of
        Some l \<Rightarrow> l
      | None \<Rightarrow> ch)"

definition ToLower :: "string \<Rightarrow> string" where
  "ToLower s = map lowerChar s"

section \<open>The subscription filter (internal/filter/capcode.go)\<close>

text \<open>
  \<open>allowedCaps\<close> is the Go \<open>map[string]struct{}\<close>: a key is present when the map
  gives \<open>Some ()\<close>.  The logger is left out: it does not influence any result.
\<close>

record CapcodeFilter =
  forwardAll :: bool
  allowedCaps :: "string \<rightharpoonup> unit"

text \<open>The loop of \<open>NewCapcodeFilter\<close> (lines 17-19) stores every capcode as a key.\<close>

fun addCaps :: "(string \<rightharpoonup> unit) \<Rightarrow> string list \<Rightarrow> (string \<rightharpoonup> unit)" where
  "addCaps m [] = m"
| "addCaps m (capcode # rest) = addCaps (m(capcode \<mapsto> ())) rest"

definition NewCapcodeFilter :: "bool \<Rightarrow> string list \<Rightarrow> CapcodeFilter" where
  "NewCapcodeFilter fwdAll capcodes =
     \<lparr> forwardAll = fwdAll, allowedCaps = addCaps Map.empty capcodes \<rparr>"

text \<open>The loop of \<open>ShouldForward\<close> (lines 51-58): the first key found ends it.\<close>

fun anyAllowed :: "(string \<rightharpoonup> unit) \<Rightarrow> string list \<Rightarrow> bool" where
  "anyAllowed m [] = False"
| "anyAllowed m (capcode # rest) =
     (case m capcode of Some u \<Rightarrow> True | None \<Rightarrow> anyAllowed m rest)"

definition ShouldForward :: "CapcodeFilter \<Rightarrow> string list \<Rightarrow> bool" where
  "ShouldForward f capcodes =
     (if forwardAll f then True
      else if length capcodes = 0 then False
      else anyAllowed (allowedCaps f) capcodes)"

section \<open>The enrichment lookup (internal/capcode/lookup.go)\<close>

record CapcodeInfo =
  Capcode :: string
  Agency :: string
  Region :: string
  Station :: string
  Function :: string

record Lookup =
  data :: "string \<rightharpoonup> CapcodeInfo"

text \<open>
  Lines 74-77 and 96-99: the normalized key of a capcode is the capcode without its
  leading zeros, and \<open>''0''\<close> when nothing is left.
\<close>

definition normalizeKey :: "string \<Rightarrow> string" where
  "normalizeKey capcode =
     (let normalized = TrimLeft capcode ''0'' in
      if normalized = '''' then ''0'' else normalized)"

text \<open>
  \<open>Get\<close> (lines 89-106).  The Go function returns a pointer to a copy of the record,
  or nil: here the record, or \<open>None\<close>.
\<close>

definition Get :: "Lookup \<Rightarrow> string \<Rightarrow> CapcodeInfo option" where
  "Get l capcode =
     (case data l capcode of
        Some info \<Rightarrow> Some info
      | None \<Rightarrow>
          (case data l (normalizeKey capcode) of
             Some info \<Rightarrow> Some info
           | None \<Rightarrow> None))"

fun GetMultiple :: "Lookup \<Rightarrow> string list \<Rightarrow> CapcodeInfo list" where
  "GetMultiple l [] = []"
| "GetMultiple l (capcode # rest) =
     (case Get l capcode of
        Some info \<Rightarrow> info # GetMultiple l rest
      | None \<Rightarrow> GetMultiple l rest)"

text \<open>
  \<open>NewLookup\<close> (lines 25-85).  The file system and the CSV reader are the environment:
  for a path, opening fails, or reading all records fails, or the reader delivers a
  list of records, each a list of fields.  \<open>records[0][0]\<close> (line 51) is an index
  expression: on a first record with no field the Go program panics, which is a
  result of its own here.
\<close>

datatype csvFile =
    OpenFails string
  | ReadFails string
  | Records "string list list"

datatype loadError =
    FailedToOpen string
  | FailedToRead string

datatype loadResult =
    LoadPanic
  | LoadError loadError
  | Loaded Lookup

text \<open>One round of the loop of lines 58-82.\<close>

definition addRecord :: "(string \<rightharpoonup> CapcodeInfo) \<Rightarrow> string list \<Rightarrow> (string \<rightharpoonup> CapcodeInfo)" where
  "addRecord m record =
     (if length record < 5 then m
      else
        let capcode = Trim (record ! 0) ''\"'';
            info = \<lparr> Capcode = capcode,
                     Agency = Trim (record ! 1) ''\"'',
                     Region = Trim (record ! 2) ''\"'',
                     Station = Trim (record ! 3) ''\"'',
                     Function = Trim (record ! 4) ''\"'' \<rparr>;
            normalizedKey = normalizeKey capcode
        in (m(normalizedKey \<mapsto> info))(capcode \<mapsto> info))"

fun parseRecords :: "(string \<rightharpoonup> CapcodeInfo) \<Rightarrow> string list list \<Rightarrow> (string \<rightharpoonup> CapcodeInfo)" where
  "parseRecords m [] = m"
| "parseRecords m (record # rest) = parseRecords (addRecord m record) rest"

text \<open>Lines 48-55: the index of the first data row, or the panic of line 51.\<close>

definition startIdx :: "string list list \<Rightarrow> nat option" where
  "startIdx records =
     (case records of
        [] \<Rightarrow> Some 0
      | first # others \<Rightarrow>
          (case first of
             [] \<Rightarrow> None
           | field0 # otherFields \<Rightarrow>
               let firstRow = ToLower field0 in
               if Contains firstRow ''capcode'' \<or> Contains firstRow ''cap'' then Some 1
               else Some 0))"

definition NewLookup :: "(string \<Rightarrow> csvFile) \<Rightarrow> string \<Rightarrow> loadResult" where
  "NewLookup fs csvPath =
     (case fs csvPath of
        OpenFails err \<Rightarrow> LoadError (FailedToOpen err)
      | ReadFails err \<Rightarrow> LoadError (FailedToRead err)
      | Records records \<Rightarrow>
          (case startIdx records of
             None \<Rightarrow> LoadPanic
           | Some i \<Rightarrow> Loaded \<lparr> data = parseRecords Map.empty (drop i records) \<rparr>))"

section \<open>The feed connection (src/unnamed/part_001, package websocket)\<close>

subsection \<open>Durations and the constants of lines 13-21\<close>

text \<open>
  \<open>time.Duration\<close> is a signed 64-bit count of nanoseconds: a 64-bit word whose
  multiplication wraps, compared as a signed number.
\<close>

type_synonym duration = "64 word"

definition second :: duration where
  "second = 1000000000"

definition initialBackoff :: duration where
  "initialBackoff = 1 * second"

definition maxBackoff :: duration where
  "maxBackoff = 30 * second"

definition backoffMultiplier :: duration where
  "backoffMultiplier = 2"

subsection \<open>Messages (lines 24-40) and their decoding\<close>

text \<open>
  The fields of \<open>P2000Message\<close> carry the prefix \<open>msg\<close> here, and \<open>Signal.Function\<close> is
  \<open>sigFunction\<close>, because \<open>CapcodeInfo\<close> has fields of the same names.  A \<open>float64\<close> is
  its 64 bits (IEEE 754): the zero value \<open>0.0\<close> is the word \<open>0\<close>.  Go's \<open>int\<close> is taken
  at 64 bits.
\<close>

type_synonym float64 = "64 word"

record Signal =
  Baudrate :: "64 word"
  Frame :: "64 word"
  Subtype :: string
  sigFunction :: string

record P2000Message =
  msgType :: string
  msgTimestamp :: "64 word"
  msgSignal :: Signal
  msgFrequencyErr :: float64
  msgCapcodes :: "string list"
  msgMessage :: string
  msgAgency :: string

text \<open>The zero values that \<open>var msg P2000Message\<close> (line 156) starts from.\<close>

definition zeroSignal :: Signal where
  "zeroSignal = \<lparr> Baudrate = 0, Frame = 0, Subtype = '''', sigFunction = '''' \<rparr>"

definition zeroMessage :: P2000Message where
  "zeroMessage =
     \<lparr> msgType = '''', msgTimestamp = 0, msgSignal = zeroSignal, msgFrequencyErr = 0,
       msgCapcodes = [], msgMessage = '''', msgAgency = '''' \<rparr>"

text \<open>
  \<open>json.Unmarshal(data, &msg)\<close> (line 157) is the library's.  What it does to a struct
  is documented: the text is parsed; for an object, each key in turn is matched with
  the struct's field tags (an exact match first, else a match that ignores case), a
  key that matches no tag is skipped, and the value of a matching key is decoded into
  that field; a value that does not fit its field makes the call return an error.
  The syntax (\<open>parse\<close>), the comparison that ignores case (\<open>equalFold\<close>) and the decoding
  of a value into a field of a basic type (\<open>decString\<close>, \<open>decInt\<close>, \<open>decFloat\<close>,
  \<open>decStrings\<close>: from the JSON value and the field's present content) are the
  library's and are parameters here; the walk over the keys, with the tags of lines
  25-31 and 36-39, is written out.
\<close>

datatype json =
    JNull
  | JBool bool
  | JNumber string
  | JString string
  | JArray "json list"
  | JObject "(string \<times> json) list"

record jsonLib =
  parse :: "string \<Rightarrow> json option"
  equalFold :: "string \<Rightarrow> string \<Rightarrow> bool"
  decString :: "json \<Rightarrow> string \<Rightarrow> string option"
  decInt :: "json \<Rightarrow> 64 word \<Rightarrow> 64 word option"
  decFloat :: "json \<Rightarrow> float64 \<Rightarrow> float64 option"
  decStrings :: "json \<Rightarrow> string list \<Rightarrow> string list option"

definition signalTags :: "string list" where
  "signalTags = [''baudrate'', ''frame'', ''subtype'', ''function'']"

definition messageTags :: "string list" where
  "messageTags =
     [''type'', ''timestamp'', ''signal'', ''frequency_error'', ''capcodes'', ''message'',
      ''agency'']"

definition findField :: "jsonLib \<Rightarrow> string list \<Rightarrow> string \<Rightarrow> string option" where
  "findField lib tags key =
     (if key \<in> set tags then Some key else find (\<lambda>tag. equalFold lib tag key) tags)"

definition setSignalField :: "jsonLib \<Rightarrow> string \<Rightarrow> json \<Rightarrow> Signal \<Rightarrow> Signal option" where
  "setSignalField lib tag v sig =
     (if tag = ''baudrate'' then map_option (\<lambda>x. sig\<lparr>Baudrate := x\<rparr>) (decInt lib v (Baudrate sig))
      else if tag = ''frame'' then map_option (\<lambda>x. sig\<lparr>Frame := x\<rparr>) (decInt lib v (Frame sig))
      else if tag = ''subtype'' then map_option (\<lambda>x. sig\<lparr>Subtype := x\<rparr>) (decString lib v (Subtype sig))
      else map_option (\<lambda>x. sig\<lparr>sigFunction := x\<rparr>) (decString lib v (sigFunction sig)))"

fun fillSignal :: "jsonLib \<Rightarrow> (string \<times> json) list \<Rightarrow> Signal \<Rightarrow> Signal option" where
  "fillSignal lib [] sig = Some sig"
| "fillSignal lib ((key, v) # rest) sig =
     (case findField lib signalTags key of
        None \<Rightarrow> fillSignal lib rest sig
      | Some tag \<Rightarrow>
          (case setSignalField lib tag v sig of
             None \<Rightarrow> None
           | Some sig' \<Rightarrow> fillSignal lib rest sig'))"

definition decSignal :: "jsonLib \<Rightarrow> json \<Rightarrow> Signal \<Rightarrow> Signal option" where
  "decSignal lib v sig =
     (case v of
        JNull \<Rightarrow> Some sig
      | JObject entries \<Rightarrow> fillSignal lib entries sig
      | _ \<Rightarrow> None)"

definition setMessageField :: "jsonLib \<Rightarrow> string \<Rightarrow> json \<Rightarrow> P2000Message \<Rightarrow> P2000Message option" where
  "setMessageField lib tag v msg =
     (if tag = ''type'' then map_option (\<lambda>x. msg\<lparr>msgType := x\<rparr>) (decString lib v (msgType msg))
      else if tag = ''timestamp'' then
        map_option (\<lambda>x. msg\<lparr>msgTimestamp := x\<rparr>) (decInt lib v (msgTimestamp msg))
      else if tag = ''signal'' then
        map_option (\<lambda>x. msg\<lparr>msgSignal := x\<rparr>) (decSignal lib v (msgSignal msg))
      else if tag = ''frequency_error'' then
        map_option (\<lambda>x. msg\<lparr>msgFrequencyErr := x\<rparr>) (decFloat lib v (msgFrequencyErr msg))
      else if tag = ''capcodes'' then
        map_option (\<lambda>x. msg\<lparr>msgCapcodes := x\<rparr>) (decStrings lib v (msgCapcodes msg))
      else if tag = ''message'' then
        map_option (\<lambda>x. msg\<lparr>msgMessage := x\<rparr>) (decString lib v (msgMessage msg))
      else map_option (\<lambda>x. msg\<lparr>msgAgency := x\<rparr>) (decString lib v (msgAgency msg)))"

fun fillMessage :: "jsonLib \<Rightarrow> (string \<times> json) list \<Rightarrow> P2000Message \<Rightarrow> P2000Message option" where
  "fillMessage lib [] msg = Some msg"
| "fillMessage lib ((key, v) # rest) msg =
     (case findField lib messageTags key of
        None \<Rightarrow> fillMessage lib rest msg
      | Some tag \<Rightarrow>
          (case setMessageField lib tag v msg of
             None \<Rightarrow> None
           | Some msg' \<Rightarrow> fillMessage lib rest msg'))"

text \<open>\<open>Unmarshal\<close>: \<open>None\<close> is a returned error (bad syntax, or a value that does not fit).\<close>

definition Unmarshal :: "jsonLib \<Rightarrow> string \<Rightarrow> P2000Message \<Rightarrow> P2000Message option" where
  "Unmarshal lib bytes msg =
     (case parse lib bytes of
        None \<Rightarrow> None
      | Some JNull \<Rightarrow> Some msg
      | Some (JObject entries) \<Rightarrow> fillMessage lib entries msg
      | Some other \<Rightarrow> None)"

subsection \<open>Channels\<close>

text \<open>
  A Go channel with a buffer: the values waiting in it, its capacity, and whether it
  has been closed.  An operation on it returns, or blocks, or panics.  A send
  proceeds when the buffer has room (a receiver that waits takes the value at once, so
  the buffer is not full then), blocks when it is full, and panics on a closed
  channel; closing a closed channel panics.  A \<open>select\<close> with one send case and a
  \<open>default\<close> takes the send when it can proceed and the default otherwise: the flag
  tells which.
\<close>

datatype 'a go = Returns 'a | Blocks | Panics string

record 'a chan =
  chBuf :: "'a list"
  chCap :: nat
  chClosed :: bool

definition makeChan :: "nat \<Rightarrow> 'a chan" where
  "makeChan n = \<lparr> chBuf = [], chCap = n, chClosed = False \<rparr>"

definition chanSend :: "'a chan \<Rightarrow> 'a \<Rightarrow> 'a chan go" where
  "chanSend ch v =
     (if chClosed ch then Panics ''send on closed channel''
      else if length (chBuf ch) < chCap ch then Returns (ch\<lparr>chBuf := chBuf ch @ [v]\<rparr>)
      else Blocks)"

definition chanRecv :: "'a chan \<Rightarrow> ('a option \<times> 'a chan) go" where
  "chanRecv ch =
     (case chBuf ch of
        v # rest \<Rightarrow> Returns (Some v, ch\<lparr>chBuf := rest\<rparr>)
      | [] \<Rightarrow> if chClosed ch then Returns (None, ch) else Blocks)"

definition chanClose :: "'a chan \<Rightarrow> 'a chan go" where
  "chanClose ch =
     (if chClosed ch then Panics ''close of closed channel''
      else Returns (ch\<lparr>chClosed := True\<rparr>))"

definition selectSendDefault :: "'a chan \<Rightarrow> 'a \<Rightarrow> ('a chan \<times> bool) go" where
  "selectSendDefault ch v =
     (case chanSend ch v of
        Returns ch' \<Rightarrow> Returns (ch', True)
      | Blocks \<Rightarrow> Returns (ch, False)
      | Panics m \<Rightarrow> Panics m)"

subsection \<open>The client (lines 43-61)\<close>

text \<open>
  \<open>conn\<close> is the socket handle or nil.  \<open>msgHandler\<close> tells whether a handler is
  registered; a call of it is an event.  \<open>doneChan\<close> is the field \<open>done\<close>.  What the
  client does to the world outside its own fields is a list of events: the log lines
  that matter, the calls of the handler, the frames written and the sockets closed,
  and the waits of the reconnect loop.
\<close>

record Client =
  conn :: "nat option"
  msgHandler :: bool
  statusChan :: "bool chan"
  doneChan :: "unit chan"
  backoff :: duration

datatype connErr = DialFailed string | ReadFailed string | CtxErr

datatype event =
    LogConnected
  | LogParseFailed string
  | HandlerCalled P2000Message
  | WroteCloseFrame nat
  | SocketClosed nat
  | LogRetry connErr duration
  | TimerFired duration
  | WaitInterrupted duration
  | LogClientClosed

definition NewClient :: "bool \<Rightarrow> Client" where
  "NewClient handler =
     \<lparr> conn = None, msgHandler = handler, statusChan = makeChan 1, doneChan = makeChan 0,
       backoff = initialBackoff \<rparr>"

text \<open>\<open>StatusChan\<close> (lines 189-191) hands the channel to the consumer, who receives.\<close>

definition receiveStatus :: "Client \<Rightarrow> (bool option \<times> Client) go" where
  "receiveStatus c =
     (case chanRecv (statusChan c) of
        Returns (v, ch) \<Rightarrow> Returns (v, c\<lparr>statusChan := ch\<rparr>)
      | Blocks \<Rightarrow> Blocks
      | Panics m \<Rightarrow> Panics m)"

text \<open>\<open>notifyStatus\<close> (lines 194-200).\<close>

definition notifyStatus :: "Client \<Rightarrow> bool \<Rightarrow> Client go" where
  "notifyStatus c connected =
     (case selectSendDefault (statusChan c) connected of
        Returns (ch, sent) \<Rightarrow> Returns (c\<lparr>statusChan := ch\<rparr>)
      | Blocks \<Rightarrow> Blocks
      | Panics m \<Rightarrow> Panics m)"

text \<open>\<open>increaseBackoff\<close> (lines 203-208) and \<open>resetBackoff\<close> (lines 211-213).\<close>

definition increaseBackoff :: "Client \<Rightarrow> Client" where
  "increaseBackoff c =
     (let b = backoff c * backoffMultiplier in
      c\<lparr>backoff := (if word_sless maxBackoff b then maxBackoff else b)\<rparr>)"

definition resetBackoff :: "Client \<Rightarrow> Client" where
  "resetBackoff c = c\<lparr>backoff := initialBackoff\<rparr>"

text \<open>\<open>handleMessage\<close> (lines 155-174): it changes no field of the client.\<close>

definition handleMessage :: "jsonLib \<Rightarrow> Client \<Rightarrow> string \<Rightarrow> event list" where
  "handleMessage lib c bytes =
     (case Unmarshal lib bytes zeroMessage of
        None \<Rightarrow> [LogParseFailed bytes]
      | Some msg \<Rightarrow> if msgHandler c then [HandlerCalled msg] else [])"

text \<open>
  \<open>closeConnection\<close> (lines 177-186).  The results of \<open>WriteMessage\<close> and of
  \<open>conn.Close\<close> are dropped by the code.
\<close>

definition closeConnection :: "Client \<Rightarrow> Client \<times> event list" where
  "closeConnection c =
     (case conn c of
        Some h \<Rightarrow> (c\<lparr>conn := None\<rparr>, [WroteCloseFrame h, SocketClosed h])
      | None \<Rightarrow> (c, []))"

text \<open>\<open>Close\<close> (lines 216-220).\<close>

definition Close :: "Client \<Rightarrow> (Client \<times> event list) go" where
  "Close c =
     (case chanClose (doneChan c) of
        Panics m \<Rightarrow> Panics m
      | Blocks \<Rightarrow> Blocks
      | Returns d \<Rightarrow>
          (let (c', evs) = closeConnection (c\<lparr>doneChan := d\<rparr>)
           in Returns (c', evs @ [LogClientClosed])))"

text \<open>
  \<open>connectAndListen\<close> (lines 91-152).  The network is the environment: the dial
  fails, or it gives a socket on which some frames are read before the loop of lines
  135-151 ends, by a failed read or by the cancelled context.  The keepalive task of
  lines 119-132 writes pings only and is left out.
\<close>

datatype sessionEnd = ReadError string | CtxDoneInLoop

datatype dialOutcome =
    DialError string
  | DialOK nat "string list" sessionEnd

fun readLoop :: "jsonLib \<Rightarrow> Client \<Rightarrow> string list \<Rightarrow> event list" where
  "readLoop lib c [] = []"
| "readLoop lib c (message # rest) = handleMessage lib c message @ readLoop lib c rest"

definition connectAndListen ::
  "jsonLib \<Rightarrow> Client \<Rightarrow> dialOutcome \<Rightarrow> (Client \<times> event list \<times> connErr) go" where
  "connectAndListen lib c d =
     (case d of
        DialError e \<Rightarrow> Returns (c, [], DialFailed e)
      | DialOK h frames ending \<Rightarrow>
          (case notifyStatus (resetBackoff (c\<lparr>conn := Some h\<rparr>)) True of
             Blocks \<Rightarrow> Blocks
           | Panics m \<Rightarrow> Panics m
           | Returns c2 \<Rightarrow>
               (let evs = readLoop lib c2 frames;
                    (c3, evs') = closeConnection c2
                in Returns (c3, LogConnected # evs @ evs',
                     (case ending of ReadError e \<Rightarrow> ReadFailed e | CtxDoneInLoop \<Rightarrow> CtxErr)))))"

text \<open>
  \<open>Connect\<close> (lines 64-88).  A run of the loop is given by its rounds: what the dial
  of the round met, and whether the wait of lines 79-84 ended by its timer or by the
  cancelled context.  After the last round of the list the context is cancelled at
  line 69.  A round that ended in \<open>connectAndListen\<close> by the cancelled context finds
  the context cancelled in its wait as well.
\<close>

datatype waitOutcome = TimerElapsed | CtxDoneInWait

fun Connect ::
  "jsonLib \<Rightarrow> Client \<Rightarrow> (dialOutcome \<times> waitOutcome) list \<Rightarrow> (Client \<times> event list \<times> connErr) go" where
  "Connect lib c [] = Returns (c, [], CtxErr)"
| "Connect lib c ((d, w) # rest) =
     (case connectAndListen lib c d of
        Blocks \<Rightarrow> Blocks
      | Panics m \<Rightarrow> Panics m
      | Returns (c1, evs, err) \<Rightarrow>
          (case notifyStatus c1 False of
             Blocks \<Rightarrow> Blocks
           | Panics m \<Rightarrow> Panics m
           | Returns c2 \<Rightarrow>
               if err = CtxErr \<or> w = CtxDoneInWait
               then Returns (c2, evs @ [LogRetry err (backoff c2), WaitInterrupted (backoff c2)], CtxErr)
               else
                 (case Connect lib (increaseBackoff c2) rest of
                    Blocks \<Rightarrow> Blocks
                  | Panics m \<Rightarrow> Panics m
                  | Returns (c', evs', r) \<Rightarrow>
                      Returns (c', evs @ [LogRetry err (backoff c2), TimerFired (backoff c2)] @ evs', r))))"

subsection \<open>Runs of the status feed and readings of the events\<close>

text \<open>
  The status feed in use: the client reports statuses, and between the reports the
  consumer may receive from the channel.  A consumer that finds the channel empty
  waits in its own task; the client goes on.
\<close>

datatype statusOp = Report bool | Receive

fun runStatus :: "Client \<Rightarrow> statusOp list \<Rightarrow> Client go" where
  "runStatus c [] = Returns c"
| "runStatus c (Report connected # ops) =
     (case notifyStatus c connected of
        Returns c' \<Rightarrow> runStatus c' ops
      | Blocks \<Rightarrow> Blocks
      | Panics m \<Rightarrow> Panics m)"
| "runStatus c (Receive # ops) =
     (case receiveStatus c of
        Returns (v, c') \<Rightarrow> runStatus c' ops
      | Blocks \<Rightarrow> runStatus c ops
      | Panics m \<Rightarrow> Panics m)"

text \<open>The state of the status channel that the program keeps: one slot, never closed.\<close>

definition statusOK :: "Client \<Rightarrow> bool" where
  "statusOK c = (chCap (statusChan c) = 1 \<and> \<not> chClosed (statusChan c)
     \<and> length (chBuf (statusChan c)) \<le> 1)"

text \<open>
  The delays that the specification expects, in nanoseconds: the wait after \<open>n\<close> earlier
  waits since the last established connection (or since the start) lasts
  \<open>min (1s * 2 ^ n) 30s\<close>.  \<open>delaysFrom n\<close> reads a list of events with this rule: an
  established connection sets the count to 0, a wait that ran to its end must have
  had the expected length and adds one, and the backoff that a retry logs or that an
  interrupted wait was started with must be the expected one.
\<close>

definition expectedDelay :: "nat \<Rightarrow> int" where
  "expectedDelay n = min (1000000000 * 2 ^ n) 30000000000"

fun delaysFrom :: "nat \<Rightarrow> event list \<Rightarrow> bool" where
  "delaysFrom n [] = True"
| "delaysFrom n (LogConnected # es) = delaysFrom 0 es"
| "delaysFrom n (TimerFired d # es) = (sint d = expectedDelay n \<and> delaysFrom (Suc n) es)"
| "delaysFrom n (WaitInterrupted d # es) = (sint d = expectedDelay n \<and> delaysFrom n es)"
| "delaysFrom n (LogRetry err d # es) = (sint d = expectedDelay n \<and> delaysFrom n es)"
| "delaysFrom n (LogParseFailed b # es) = delaysFrom n es"
| "delaysFrom n (HandlerCalled m # es) = delaysFrom n es"
| "delaysFrom n (WroteCloseFrame h # es) = delaysFrom n es"
| "delaysFrom n (SocketClosed h # es) = delaysFrom n es"
| "delaysFrom n (LogClientClosed # es) = delaysFrom n es"

text \<open>The lengths of the waits that ran to their end, in the order of the run.\<close>

fun waits :: "event list \<Rightarrow> int list" where
  "waits [] = []"
| "waits (TimerFired d # es) = sint d # waits es"
| "waits (e # es) = waits es"

text \<open>
  \<open>present lib tags entries tag\<close>: some key of the object is matched with the field
  \<open>tag\<close>.  \<open>handled\<close>: the messages that the handler was called with, in order.
\<close>

definition present :: "jsonLib \<Rightarrow> string list \<Rightarrow> (string \<times> json) list \<Rightarrow> string \<Rightarrow> bool" where
  "present lib tags entries tag =
     (Some tag \<in> set (map (\<lambda>entry. findField lib tags (fst entry)) entries))"

fun handled :: "event list \<Rightarrow> P2000Message list" where
  "handled [] = []"
| "handled (HandlerCalled msg # es) = msg # handled es"
| "handled (e # es) = handled es"

section \<open>The delivery client (package notifier)\<close>

text \<open>
  The sources hold the file of package \<open>notifier\<close> twice.  The copy
  \<open>src/unnamed/part_000\<close> is the one that \<open>main\<close> constructs
  (\<open>cmd/p2000-forwarder/integration_test.go\<close>, lines 535-542, calls its
  \<open>NewNotifier\<close> of six arguments); the names without a suffix below are its
  functions.  The second copy stands at the end of
  \<open>src/internal/metrics/prometheus.go\<close> (lines 454-660) and is the one that the tests
  of \<open>internal/notifier/ntfy_test.go\<close> construct; its functions carry the suffix \<open>2\<close>.
  \<open>Send\<close> and \<open>getTags\<close> are the same text in both.
\<close>

subsection \<open>Constants (part_000, lines 16-21) and the outside world\<close>

definition maxRetries :: nat where
  "maxRetries = 3"

definition retryBackoff :: duration where
  "retryBackoff = 2 * second"

definition defaultPriority :: string where
  "defaultPriority = ''3''"

text \<open>The four bytes of the sign that starts every title (U+1F6A8 in UTF-8).\<close>

definition siren :: string where
  "siren = [CHR 0xF0, CHR 0x9F, CHR 0x9A, CHR 0xA8]"

definition newline :: string where
  "newline = [CHR 0x0A]"

fun HasSuffix :: "string \<Rightarrow> string \<Rightarrow> bool" where
  "HasSuffix s suffix = HasPrefix (rev s) (rev suffix)"

definition TrimSuffix :: "string \<Rightarrow> string \<Rightarrow> string" where
  "TrimSuffix s suffix =
     (if HasSuffix s suffix then take (length s - length suffix) s else s)"

record request =
  reqMethod :: string
  reqURL :: string
  reqBody :: string
  reqHeader :: "string \<rightharpoonup> string"

datatype httpOutcome = TransportError string | Response int

text \<open>
  The environment of a call of \<open>Send\<close>: whether \<open>http.NewRequestWithContext\<close> refuses
  the URL, what the call of \<open>httpClient.Do\<close> in attempt \<open>i\<close> (counted from 0) meets,
  whether the context is cancelled during the wait before attempt \<open>i\<close>, and the
  base64 encoding that \<open>SetBasicAuth\<close> applies.
\<close>

record httpEnv =
  urlRefused :: "string \<Rightarrow> string option"
  httpDo :: "nat \<Rightarrow> request \<Rightarrow> httpOutcome"
  ctxDone :: "nat \<Rightarrow> bool"
  base64 :: "string \<Rightarrow> string"

datatype sendErr =
    CreateRequestFailed string
  | RequestFailed string
  | UnexpectedStatus int

datatype sendEvent =
    Waited duration
  | WaitCancelled duration
  | Sent request
  | LogAttemptFailed nat sendErr
  | LogNotificationSent

datatype sendResult =
    SendOK
  | SendCtxErr
  | SendFailedAfter nat "sendErr option"

subsection \<open>The retry loop of \<open>Send\<close> (part_000, lines 60-91)\<close>

text \<open>
  \<open>doRequest i\<close> stands for the call \<open>n.sendRequest(ctx, title, message, priority,
  tags)\<close> of attempt \<open>i\<close>: the error it returns and the request it made.  The events of
  a call of \<open>Send\<close> are its waits, the requests handed to the HTTP client, the warning
  of lines 77-80 after a failed attempt (with the number of the attempt, counted from
  1) and the line of lines 84-87 after the successful one.
\<close>

function sendLoop ::
  "httpEnv \<Rightarrow> (nat \<Rightarrow> sendErr option \<times> sendEvent list) \<Rightarrow> nat \<Rightarrow> sendErr option
     \<Rightarrow> sendResult \<times> sendEvent list" where
  "sendLoop env doRequest attempt lastErr =
     (if attempt < maxRetries then
        (if 0 < attempt \<and> ctxDone env attempt
         then (SendCtxErr, [WaitCancelled (retryBackoff * of_nat attempt)])
         else
           (let waited = (if 0 < attempt then [Waited (retryBackoff * of_nat attempt)] else [])
            in case doRequest attempt of
                 (Some err, evs) \<Rightarrow>
                   (case sendLoop env doRequest (attempt + 1) (Some err) of
                      (r, evs') \<Rightarrow>
                        (r, waited @ evs @ [LogAttemptFailed (attempt + 1) err] @ evs'))
               | (None, evs) \<Rightarrow> (SendOK, waited @ evs @ [LogNotificationSent])))
      else (SendFailedAfter maxRetries lastErr, []))"
  by pat_completeness auto
termination
  by (relation "measure (\<lambda>(env, doRequest, attempt, lastErr). maxRetries - attempt)") auto

declare sendLoop.simps [simp del]

definition getTags :: "string \<Rightarrow> string" where
  "getTags msgType' = (if msgType' = ''FLEX'' then ''rotating_light,emergency'' else ''warning'')"

subsection \<open>The copy of \<open>src/unnamed/part_000\<close>\<close>

text \<open>The field \<open>translations\<close> is \<open>capcodeTranslations\<close> here.\<close>

record Notifier =
  server :: string
  topic :: string
  token :: string
  capcodeTranslations :: "string \<rightharpoonup> string"
  capcodeLookup :: "Lookup option"

definition NewNotifier ::
  "string \<Rightarrow> string \<Rightarrow> string \<Rightarrow> (string \<rightharpoonup> string) \<Rightarrow> Lookup option \<Rightarrow> Notifier" where
  "NewNotifier server' topic' token' transl capcodeLookup' =
     \<lparr> server = TrimSuffix server' ''/'', topic = topic', token = token',
       capcodeTranslations = transl, capcodeLookup = capcodeLookup' \<rparr>"

text \<open>\<open>sendRequest\<close> (lines 95-123).\<close>

definition sendRequest ::
  "httpEnv \<Rightarrow> Notifier \<Rightarrow> string \<Rightarrow> string \<Rightarrow> string \<Rightarrow> string \<Rightarrow> nat
     \<Rightarrow> sendErr option \<times> sendEvent list" where
  "sendRequest env n title message priority tags attempt =
     (let url = server n @ ''/'' @ topic n in
      case urlRefused env url of
        Some err \<Rightarrow> (Some (CreateRequestFailed err), [])
      | None \<Rightarrow>
          (let hdr = [''Title'' \<mapsto> title, ''Priority'' \<mapsto> priority, ''Tags'' \<mapsto> tags];
               hdr' = (if token n \<noteq> '''' then hdr(''Authorization'' \<mapsto> ''Bearer '' @ token n)
                       else hdr);
               req = \<lparr> reqMethod = ''POST'', reqURL = url, reqBody = message, reqHeader = hdr' \<rparr>
           in case httpDo env attempt req of
                TransportError err \<Rightarrow> (Some (RequestFailed err), [Sent req])
              | Response statusCode \<Rightarrow>
                  if statusCode < 200 \<or> statusCode \<ge> 300
                  then (Some (UnexpectedStatus statusCode), [Sent req])
                  else (None, [Sent req])))"

text \<open>\<open>formatTitle\<close> (lines 127-142).\<close>

definition formatTitle :: "Notifier \<Rightarrow> P2000Message \<Rightarrow> string" where
  "formatTitle n msg =
     (let agency =
            (case capcodeLookup n of
               None \<Rightarrow> msgAgency msg
             | Some l \<Rightarrow>
                 (case msgCapcodes msg of
                    [] \<Rightarrow> msgAgency msg
                  | first # others \<Rightarrow>
                      (case Get l first of
                         Some info \<Rightarrow> Agency info
                       | None \<Rightarrow> msgAgency msg)))
      in if agency \<noteq> '''' then siren @ '' P2000 '' @ agency else siren @ '' P2000'')"

text \<open>\<open>formatMessage\<close> (lines 145-188): one round of the loop of lines 156-184.\<close>

definition capcodeLines :: "Notifier \<Rightarrow> string \<Rightarrow> string" where
  "capcodeLines n capcode =
     (case (case capcodeLookup n of None \<Rightarrow> None | Some l \<Rightarrow> Get l capcode) of
        Some info \<Rightarrow>
          ''Capcode: '' @ capcode @ newline
          @ (if Region info \<noteq> '''' then ''Regio: '' @ Region info @ newline else '''')
          @ (if Station info \<noteq> '''' then ''Kazerne: '' @ Station info @ newline else '''')
          @ (if Function info \<noteq> '''' then ''Functie: '' @ Function info @ newline else '''')
      | None \<Rightarrow>
          (case capcodeTranslations n capcode of
             Some translation \<Rightarrow> ''Capcode: '' @ capcode @ '' - '' @ translation @ newline
           | None \<Rightarrow> ''Capcode: '' @ capcode @ newline))"

fun capcodeDetails :: "Notifier \<Rightarrow> nat \<Rightarrow> string list \<Rightarrow> string" where
  "capcodeDetails n i [] = ''''"
| "capcodeDetails n i (capcode # rest) =
     (if 0 < i then newline else '''') @ capcodeLines n capcode @ capcodeDetails n (i + 1) rest"

definition formatMessage :: "Notifier \<Rightarrow> P2000Message \<Rightarrow> string" where
  "formatMessage n msg =
     msgMessage msg @ newline @ newline
     @ (if 0 < length (msgCapcodes msg)
        then ''Capcode Details:'' @ newline @ capcodeDetails n 0 (msgCapcodes msg)
        else '''')"

text \<open>\<open>Send\<close> (lines 50-92).\<close>

definition Send :: "httpEnv \<Rightarrow> Notifier \<Rightarrow> P2000Message \<Rightarrow> sendResult \<times> sendEvent list" where
  "Send env n msg =
     (let message = formatMessage n msg;
          title = formatTitle n msg;
          priority = defaultPriority;
          tags = getTags (msgType msg)
      in sendLoop env (sendRequest env n title message priority tags) 0 None)"

subsection \<open>The copy at the end of \<open>src/internal/metrics/prometheus.go\<close>\<close>

record Notifier2 =
  server2 :: string
  topic2 :: string
  token2 :: string
  username2 :: string
  password2 :: string
  capcodeTranslations2 :: "string \<rightharpoonup> string"
  capcodeLookup2 :: "Lookup option"

definition NewNotifier2 ::
  "string \<Rightarrow> string \<Rightarrow> string \<Rightarrow> string \<Rightarrow> string \<Rightarrow> (string \<rightharpoonup> string) \<Rightarrow> Lookup option
     \<Rightarrow> Notifier2" where
  "NewNotifier2 server' topic' token' username' password' transl capcodeLookup' =
     \<lparr> server2 = TrimSuffix server' ''/'', topic2 = topic', token2 = token',
       username2 = username', password2 = password', capcodeTranslations2 = transl,
       capcodeLookup2 = capcodeLookup' \<rparr>"

text \<open>
  \<open>sendRequest\<close> (prometheus.go, lines 552-585).  \<open>SetBasicAuth\<close> sets the header
  \<open>Authorization\<close> to \<open>Basic\<close> and the base64 encoding of \<open>username:password\<close>.
\<close>

definition basicAuth :: "httpEnv \<Rightarrow> string \<Rightarrow> string \<Rightarrow> string" where
  "basicAuth env user pass = ''Basic '' @ base64 env (user @ '':'' @ pass)"

definition sendRequest2 ::
  "httpEnv \<Rightarrow> Notifier2 \<Rightarrow> string \<Rightarrow> string \<Rightarrow> string \<Rightarrow> string \<Rightarrow> nat
     \<Rightarrow> sendErr option \<times> sendEvent list" where
  "sendRequest2 env n title message priority tags attempt =
     (let url = server2 n @ ''/'' @ topic2 n in
      case urlRefused env url of
        Some err \<Rightarrow> (Some (CreateRequestFailed err), [])
      | None \<Rightarrow>
          (let hdr = [''Title'' \<mapsto> title, ''Priority'' \<mapsto> priority, ''Tags'' \<mapsto> tags];
               hdr' =
                 (if password2 n \<noteq> ''''
                  then hdr(''Authorization'' \<mapsto> basicAuth env (username2 n) (password2 n))
                  else if token2 n \<noteq> ''''
                  then hdr(''Authorization'' \<mapsto> ''Bearer '' @ token2 n)
                  else hdr);
               req = \<lparr> reqMethod = ''POST'', reqURL = url, reqBody = message, reqHeader = hdr' \<rparr>
           in case httpDo env attempt req of
                TransportError err \<Rightarrow> (Some (RequestFailed err), [Sent req])
              | Response statusCode \<Rightarrow>
                  if statusCode < 200 \<or> statusCode \<ge> 300
                  then (Some (UnexpectedStatus statusCode), [Sent req])
                  else (None, [Sent req])))"

text \<open>\<open>formatTitle\<close> (prometheus.go, lines 589-598).\<close>

definition formatTitle2 :: "Notifier2 \<Rightarrow> P2000Message \<Rightarrow> string" where
  "formatTitle2 n msg =
     (let message = msgMessage msg
      in if message \<noteq> '''' then siren @ '' '' @ message else siren @ '' P2000'')"

text \<open>\<open>formatMessage\<close> (prometheus.go, lines 601-650).\<close>

fun Join :: "string list \<Rightarrow> string \<Rightarrow> string" where
  "Join [] sep = ''''"
| "Join [x] sep = x"
| "Join (x # y # rest) sep = x @ sep @ Join (y # rest) sep"

definition capcodeLines2 :: "Notifier2 \<Rightarrow> string \<Rightarrow> string" where
  "capcodeLines2 n capcode =
     (case (case capcodeLookup2 n of None \<Rightarrow> None | Some l \<Rightarrow> Get l capcode) of
        Some info \<Rightarrow>
          (let details =
                 (if Region info \<noteq> '''' then [Region info] else [])
                 @ (if Station info \<noteq> '''' then [Station info] else [])
                 @ (if Function info \<noteq> '''' then [Function info] else [])
           in if 0 < length details
              then capcode @ '' - '' @ Join details '', '' @ newline
              else capcode @ newline)
      | None \<Rightarrow> '''')"

fun capcodeDetails2 :: "Notifier2 \<Rightarrow> nat \<Rightarrow> string list \<Rightarrow> string" where
  "capcodeDetails2 n i [] = ''''"
| "capcodeDetails2 n i (capcode # rest) =
     (if 0 < i then newline else '''') @ capcodeLines2 n capcode @ capcodeDetails2 n (i + 1) rest"

definition agencyLabel2 :: "Notifier2 \<Rightarrow> P2000Message \<Rightarrow> string" where
  "agencyLabel2 n msg =
     (case capcodeLookup2 n of
        None \<Rightarrow> ''overig''
      | Some l \<Rightarrow>
          (case msgCapcodes msg of
             [] \<Rightarrow> ''overig''
           | first # others \<Rightarrow>
               (case Get l first of
                  Some info \<Rightarrow> Agency info
                | None \<Rightarrow> ''overig'')))"

definition formatMessage2 :: "Notifier2 \<Rightarrow> P2000Message \<Rightarrow> string" where
  "formatMessage2 n msg =
     agencyLabel2 n msg @ newline @ newline
     @ (if 0 < length (msgCapcodes msg)
        then ''Capcode Details:'' @ newline @ capcodeDetails2 n 0 (msgCapcodes msg)
        else '''')"

definition Send2 :: "httpEnv \<Rightarrow> Notifier2 \<Rightarrow> P2000Message \<Rightarrow> sendResult \<times> sendEvent list" where
  "Send2 env n msg =
     (let message = formatMessage2 n msg;
          title = formatTitle2 n msg;
          priority = defaultPriority;
          tags = getTags (msgType msg)
      in sendLoop env (sendRequest2 env n title message priority tags) 0 None)"

text \<open>
  How \<open>main\<close> builds the delivery client from the configuration
  (\<open>internal/config/config.go\<close>, lines 22-28; \<open>integration_test.go\<close>, lines 535-542): of
  the credentials only the token is handed on.
\<close>

record NtfyConfig =
  cfgServer :: string
  cfgTopic :: string
  cfgToken :: string
  cfgUsername :: string
  cfgPassword :: string

definition notifierOfConfig ::
  "NtfyConfig \<Rightarrow> (string \<rightharpoonup> string) \<Rightarrow> Lookup option \<Rightarrow> Notifier" where
  "notifierOfConfig cfg transl capcodeLookup' =
     NewNotifier (cfgServer cfg) (cfgTopic cfg) (cfgToken cfg) transl capcodeLookup'"

text \<open>
  Readings of the events of a call of \<open>Send\<close>: attempt \<open>i\<close> of the call, the number of
  requests handed to the HTTP client, the number of attempts, and the lengths (in
  nanoseconds) of the waits that were started.
\<close>

definition attemptOf ::
  "httpEnv \<Rightarrow> Notifier \<Rightarrow> P2000Message \<Rightarrow> nat \<Rightarrow> sendErr option \<times> sendEvent list" where
  "attemptOf env n msg =
     sendRequest env n (formatTitle n msg) (formatMessage n msg) defaultPriority
       (getTags (msgType msg))"

fun requestsSent :: "sendEvent list \<Rightarrow> nat" where
  "requestsSent [] = 0"
| "requestsSent (Sent req # es) = Suc (requestsSent es)"
| "requestsSent (e # es) = requestsSent es"

fun attemptsMade :: "sendEvent list \<Rightarrow> nat" where
  "attemptsMade [] = 0"
| "attemptsMade (LogAttemptFailed i err # es) = Suc (attemptsMade es)"
| "attemptsMade (LogNotificationSent # es) = Suc (attemptsMade es)"
| "attemptsMade (e # es) = attemptsMade es"

fun waitedFor :: "sendEvent list \<Rightarrow> int list" where
  "waitedFor [] = []"
| "waitedFor (Waited d # es) = sint d # waitedFor es"
| "waitedFor (WaitCancelled d # es) = sint d # waitedFor es"
| "waitedFor (e # es) = waitedFor es"

fun isWait :: "sendEvent \<Rightarrow> bool" where
  "isWait (Waited d) = True"
| "isWait (WaitCancelled d) = True"
| "isWait e = False"

text \<open>The \<open>Authorization\<close> header of each request among the events, in order.\<close>

fun authOf :: "sendEvent list \<Rightarrow> string option list" where
  "authOf [] = []"
| "authOf (Sent req # es) = reqHeader req ''Authorization'' # authOf es"
| "authOf (e # es) = authOf es"

section \<open>Concrete inputs for the examples\<close>

definition sampleInfo :: CapcodeInfo where
  "sampleInfo =
     \<lparr> Capcode = ''0012'', Agency = ''Brandweer'', Region = ''Utrecht'', Station = ''Centrum'',
       Function = ''Kazernealarm'' \<rparr>"

definition sampleLookup :: Lookup where
  "sampleLookup =
     \<lparr> data = parseRecords Map.empty
         [[''\"0012\"'', ''Brandweer'', ''Utrecht'', ''Centrum'', ''Kazernealarm'']] \<rparr>"

definition sampleFs :: "string \<Rightarrow> csvFile" where
  "sampleFs path =
     (if path = ''empty.csv'' then Records []
      else if path = ''header.csv''
        then Records [[''Capcode'', ''Agency'', ''Region'', ''Station'', ''Function'']]
      else if path = ''data.csv''
        then Records [[''Capcode'', ''Agency'', ''Region'', ''Station'', ''Function''],
                      [''0101001'', ''Brandweer'', ''Utrecht'', ''Centrum'', ''Kazernealarm''],
                      [''0101002'', ''Ambulance'']]
      else if path = ''broken.csv'' then ReadFails ''bare quote''
      else OpenFails ''no such file'')"

definition closedOnce :: Client where
  "closedOnce = (NewClient True)\<lparr>doneChan := (makeChan 0)\<lparr>chClosed := True\<rparr>\<rparr>"

definition openClient :: Client where
  "openClient = (NewClient True)\<lparr>conn := Some 7\<rparr>"

text \<open>
  A stand-in for the JSON library on a few payloads: enough to run the client on
  concrete frames.
\<close>

definition sampleFrame :: string where
  "sampleFrame = ''{\"type\":\"FLEX\",\"capcodes\":[\"0101001\"],\"MESSAGE\":\"Brand woning\",\"extra\":1}''"

definition sampleParse :: "string \<Rightarrow> json option" where
  "sampleParse bytes =
     (if bytes = sampleFrame
      then Some (JObject [(''type'', JString ''FLEX''), (''capcodes'', JArray [JString ''0101001'']),
                          (''MESSAGE'', JString ''Brand woning''), (''extra'', JNumber ''1'')])
      else if bytes = ''{\"timestamp\":\"soon\"}''
      then Some (JObject [(''timestamp'', JString ''soon'')])
      else if bytes = ''{}'' then Some (JObject [])
      else if bytes = ''null'' then Some JNull
      else if bytes = ''[1]'' then Some (JArray [JNumber ''1''])
      else None)"

definition sampleDecString :: "json \<Rightarrow> string \<Rightarrow> string option" where
  "sampleDecString v old = (case v of JNull \<Rightarrow> Some old | JString s \<Rightarrow> Some s | _ \<Rightarrow> None)"

definition sampleDecInt :: "json \<Rightarrow> 64 word \<Rightarrow> 64 word option" where
  "sampleDecInt v old =
     (case v of
        JNull \<Rightarrow> Some old
      | JNumber lit \<Rightarrow> (if lit = ''1'' then Some 1 else if lit = ''1200'' then Some 1200 else None)
      | _ \<Rightarrow> None)"

fun sampleStrings :: "json list \<Rightarrow> string list option" where
  "sampleStrings [] = Some []"
| "sampleStrings (JString s # rest) = map_option ((#) s) (sampleStrings rest)"
| "sampleStrings (v # rest) = None"

definition sampleDecStrings :: "json \<Rightarrow> string list \<Rightarrow> string list option" where
  "sampleDecStrings v old =
     (case v of JNull \<Rightarrow> Some [] | JArray vs \<Rightarrow> sampleStrings vs | _ \<Rightarrow> None)"

definition sampleLib :: jsonLib where
  "sampleLib =
     \<lparr> parse = sampleParse,
       equalFold = (\<lambda>a b. ToLower a = ToLower b),
       decString = sampleDecString,
       decInt = sampleDecInt,
       decFloat = sampleDecInt,
       decStrings = sampleDecStrings \<rparr>"

definition sampleMessage :: P2000Message where
  "sampleMessage =
     \<lparr> msgType = ''FLEX'', msgTimestamp = 0, msgSignal = zeroSignal, msgFrequencyErr = 0,
       msgCapcodes = [''0101001''], msgMessage = ''Brand woning'', msgAgency = '''' \<rparr>"

definition sampleRounds :: "(dialOutcome \<times> waitOutcome) list" where
  "sampleRounds =
     [(DialError ''refused'', TimerElapsed),
      (DialError ''refused'', TimerElapsed),
      (DialOK 7 [''not json'', sampleFrame] (ReadError ''EOF''), TimerElapsed),
      (DialError ''refused'', CtxDoneInWait)]"

definition sampleEnd :: Client where
  "sampleEnd =
     \<lparr> conn = None, msgHandler = True,
       statusChan = \<lparr> chBuf = [False], chCap = 1, chClosed = False \<rparr>,
       doneChan = \<lparr> chBuf = [], chCap = 0, chClosed = False \<rparr>,
       backoff = 2000000000 \<rparr>"

definition sampleEvents :: "event list" where
  "sampleEvents =
     [LogRetry (DialFailed ''refused'') 1000000000, TimerFired 1000000000,
      LogRetry (DialFailed ''refused'') 2000000000, TimerFired 2000000000,
      LogConnected, LogParseFailed ''not json'', HandlerCalled sampleMessage,
      WroteCloseFrame 7, SocketClosed 7,
      LogRetry (ReadFailed ''EOF'') 1000000000, TimerFired 1000000000,
      LogRetry (DialFailed ''refused'') 2000000000, WaitInterrupted 2000000000]"

definition sampleEntries :: "(string \<times> json) list" where
  "sampleEntries =
     [(''type'', JString ''FLEX''), (''capcodes'', JArray [JString ''0101001'']),
      (''MESSAGE'', JString ''Brand woning''), (''extra'', JNumber ''1'')]"

definition sampleNotifier :: Notifier where
  "sampleNotifier = NewNotifier ''https://ntfy.sh/'' ''alerts'' ''tk_1'' Map.empty None"

definition sampleRequest :: request where
  "sampleRequest =
     \<lparr> reqMethod = ''POST'', reqURL = ''https://ntfy.sh/alerts'',
       reqBody = ''Brand woning'' @ newline @ newline @ ''Capcode Details:'' @ newline
                 @ ''Capcode: 0101001'' @ newline,
       reqHeader = [''Title'' \<mapsto> siren @ '' P2000'', ''Priority'' \<mapsto> ''3'',
                    ''Tags'' \<mapsto> ''rotating_light,emergency'',
                    ''Authorization'' \<mapsto> ''Bearer tk_1''] \<rparr>"

definition envRecovers :: httpEnv where
  "envRecovers =
     \<lparr> urlRefused = (\<lambda>url. None),
       httpDo = (\<lambda>i req. if i < 2 then Response 500 else Response 200),
       ctxDone = (\<lambda>i. False),
       base64 = (\<lambda>s. s) \<rparr>"

definition envAlways500 :: httpEnv where
  "envAlways500 =
     \<lparr> urlRefused = (\<lambda>url. None),
       httpDo = (\<lambda>i req. Response 500),
       ctxDone = (\<lambda>i. False),
       base64 = (\<lambda>s. s) \<rparr>"

definition envCancelled :: httpEnv where
  "envCancelled =
     \<lparr> urlRefused = (\<lambda>url. None),
       httpDo = (\<lambda>i req. TransportError ''connection refused''),
       ctxDone = (\<lambda>i. i = 1),
       base64 = (\<lambda>s. s) \<rparr>"

definition cfgBoth :: NtfyConfig where
  "cfgBoth =
     \<lparr> cfgServer = ''https://ntfy.sh'', cfgTopic = ''alerts'', cfgToken = ''tk_1'',
       cfgUsername = ''user'', cfgPassword = ''pass'' \<rparr>"

definition cfgPasswordOnly :: NtfyConfig where
  "cfgPasswordOnly =
     \<lparr> cfgServer = ''https://ntfy.sh'', cfgTopic = ''alerts'', cfgToken = '''',
       cfgUsername = ''user'', cfgPassword = ''pass'' \<rparr>"

definition envOK :: httpEnv where
  "envOK =
     \<lparr> urlRefused = (\<lambda>url. None),
       httpDo = (\<lambda>i req. Response 200),
       ctxDone = (\<lambda>i. False),
       base64 = (\<lambda>s. ''dXNlcjpwYXNz'') \<rparr>"

definition sampleNotifier2 :: "NtfyConfig \<Rightarrow> Notifier2" where
  "sampleNotifier2 cfg =
     NewNotifier2 (cfgServer cfg) (cfgTopic cfg) (cfgToken cfg) (cfgUsername cfg)
       (cfgPassword cfg) Map.empty None"

definition agencyMessage :: P2000Message where
  "agencyMessage = sampleMessage\<lparr>msgAgency := ''Brandweer''\<rparr>"

section \<open>Properties of the subscription filter\<close>

lemma anyAllowed_iff: "anyAllowed m xs = (\<exists>x \<in> set xs. m x \<noteq> None)"
  by (induction xs) (auto split: option.splits)

lemma addCaps_dom: "dom (addCaps m cs) = dom m \<union> set cs"
  by (induction cs arbitrary: m) auto

lemma addCaps_present: "(addCaps Map.empty cs x = Some ()) = (x \<in> set cs)"
  using addCaps_dom [of Map.empty cs] by (auto simp: dom_def)

text \<open>
  C4.  A filter built with \<open>forwardAll = true\<close> forwards every list of capcodes, the
  empty one too.  A filter built with \<open>forwardAll = false\<close> forwards a list exactly when
  one of its elements is, as the very same string, one of the configured capcodes;
  it does not forward the empty list.  Strings that differ in case or by a blank
  are different strings.
\<close>

theorem ShouldForward_exact_match:
  "ShouldForward (NewCapcodeFilter True allowed) capcodes = True \<and>
   ShouldForward (NewCapcodeFilter True allowed) [] = True \<and>
   ShouldForward (NewCapcodeFilter False allowed) capcodes =
     (\<exists>c \<in> set capcodes. c \<in> set allowed) \<and>
   ShouldForward (NewCapcodeFilter False allowed) [] = False"
  by (auto simp add: ShouldForward_def NewCapcodeFilter_def anyAllowed_iff addCaps_present)

theorem ShouldForward_exact_match_witness:
  "ShouldForward (NewCapcodeFilter False [''0101001'', ''0101002'']) [''9999999'', ''0101001'']
   \<and> \<not> ShouldForward (NewCapcodeFilter False [''0101001'', ''0101002'']) [''9999999'']
   \<and> \<not> ShouldForward (NewCapcodeFilter False [''ABC'']) [''abc'', '' ABC'', ''ABC '']
   \<and> ShouldForward (NewCapcodeFilter True []) []"
  using ShouldForward_exact_match [of "[''0101001'', ''0101002'']" "[''9999999'', ''0101001'']"]
    ShouldForward_exact_match [of "[''0101001'', ''0101002'']" "[''9999999'']"]
    ShouldForward_exact_match [of "[''ABC'']" "[''abc'', '' ABC'', ''ABC '']"]
    ShouldForward_exact_match [of "[]" "[]"]
  by simp

section \<open>Properties of the enrichment lookup\<close>

lemma normalizeKey_zeros: "set capcode \<subseteq> {CHR ''0''} \<Longrightarrow> normalizeKey capcode = ''0''"
  by (induction capcode) (auto simp: normalizeKey_def TrimLeft_def)

lemma normalizeKey_strip:
  "\<not> set capcode \<subseteq> {CHR ''0''} \<Longrightarrow>
     normalizeKey capcode = dropWhile (\<lambda>ch. ch = CHR ''0'') capcode"
  by (auto simp: normalizeKey_def TrimLeft_def dropWhile_eq_Nil_conv)

lemma Get_exact: "data l c = Some info \<Longrightarrow> Get l c = Some info"
  by (simp add: Get_def)

lemma Get_fallback: "data l c = None \<Longrightarrow> Get l c = data l (normalizeKey c)"
  by (simp add: Get_def split: option.splits)

text \<open>
  C5.  \<open>Get\<close> answers with the record stored under the capcode itself when there is
  one; when there is none it answers with what is stored under the normalized key
  (the capcode without its leading zeros, \<open>''0''\<close> when nothing but zeros was there),
  and with nothing when that key is absent as well.  So a capcode without an entry
  of its own, whose normalized key has one, gets the answer that its normalized key
  gets.
\<close>

theorem Get_exact_then_normalized:
  "(data l c = Some info \<longrightarrow> Get l c = Some info) \<and>
   (data l c = None \<longrightarrow> Get l c = data l (normalizeKey c)) \<and>
   (data l c = None \<and> data l (normalizeKey c) = None \<longrightarrow> Get l c = None) \<and>
   (data l c = None \<and> data l (normalizeKey c) = Some info \<longrightarrow>
      Get l c = Get l (normalizeKey c) \<and> Get l c = Some info) \<and>
   normalizeKey c =
     (if set c \<subseteq> {CHR ''0''} then ''0'' else dropWhile (\<lambda>ch. ch = CHR ''0'') c)"
  by (simp add: Get_exact Get_fallback normalizeKey_zeros normalizeKey_strip)

theorem Get_exact_then_normalized_witness:
  "data sampleLookup ''00012'' = None \<and>
   data sampleLookup (normalizeKey ''00012'') = Some sampleInfo \<and>
   normalizeKey ''00012'' = ''12'' \<and>
   Get sampleLookup ''00012'' = Get sampleLookup ''12'' \<and>
   Get sampleLookup ''00012'' = Some sampleInfo \<and>
   Get sampleLookup ''0012'' = Some sampleInfo \<and>
   Get sampleLookup ''0999'' = None"
proof -
  have n: "normalizeKey ''00012'' = ''12''" "normalizeKey ''0012'' = ''12''"
    "normalizeKey ''0999'' = ''999''"
    by (simp_all add: normalizeKey_def TrimLeft_def)
  have t: "Trim ''\"0012\"'' ''\"'' = ''0012''"
    by (simp add: Trim_def TrimLeft_def TrimRight_def)
  have d: "data sampleLookup = [''12'' \<mapsto> sampleInfo, ''0012'' \<mapsto> sampleInfo]"
    by (simp add: sampleLookup_def addRecord_def sampleInfo_def t n Let_def Trim_def TrimLeft_def
        TrimRight_def)
  have a: "data sampleLookup ''00012'' = None" "data sampleLookup ''12'' = Some sampleInfo"
    "data sampleLookup ''0012'' = Some sampleInfo" "data sampleLookup ''0999'' = None"
    "data sampleLookup ''999'' = None"
    by (simp_all add: d)
  show ?thesis
    using Get_exact_then_normalized [of sampleLookup "''00012''" sampleInfo]
      Get_exact_then_normalized [of sampleLookup "''0012''" sampleInfo]
      Get_exact_then_normalized [of sampleLookup "''0999''" sampleInfo]
    by (auto simp add: a n)
qed

lemma parseRecords_short:
  "\<forall>r \<in> set records. length r < 5 \<Longrightarrow> parseRecords m records = m"
  by (induction records arbitrary: m) (simp_all add: addRecord_def)

lemma Get_empty: "Get \<lparr> data = Map.empty \<rparr> c = None"
  by (simp add: Get_def)

lemma startIdx_Some:
  "records = [] \<or> hd records \<noteq> [] \<Longrightarrow> \<exists>i. startIdx records = Some i"
  by (auto simp: startIdx_def Let_def split: list.splits)

text \<open>
  C10.  When the reader delivers no record (an empty file), or one record only whose
  first field, in lower case, contains \<open>cap\<close> (a header row as the code detects it),
  \<open>NewLookup\<close> returns a lookup, and \<open>Get\<close> on that lookup finds nothing for any
  capcode.  \<open>NewLookup\<close> returns an error exactly when the file cannot be opened or the
  reader fails; with records from the reader, each of which has a field, it returns a
  lookup.
\<close>

theorem NewLookup_without_data_rows:
  "(fs path = Records [] \<longrightarrow>
      (\<exists>l. NewLookup fs path = Loaded l \<and> (\<forall>c. Get l c = None))) \<and>
   (fs path = Records [field0 # others] \<and> Contains (ToLower field0) ''cap'' \<longrightarrow>
      (\<exists>l. NewLookup fs path = Loaded l \<and> (\<forall>c. Get l c = None))) \<and>
   (NewLookup fs path = LoadError e \<longleftrightarrow>
      (\<exists>u. fs path = OpenFails u \<and> e = FailedToOpen u) \<or>
      (\<exists>u. fs path = ReadFails u \<and> e = FailedToRead u)) \<and>
   (fs path = Records records \<and> (\<forall>r \<in> set records. r \<noteq> []) \<longrightarrow>
      (\<exists>l. NewLookup fs path = Loaded l))"
proof (intro conjI impI)
  assume "fs path = Records []"
  then show "\<exists>l. NewLookup fs path = Loaded l \<and> (\<forall>c. Get l c = None)"
    by (simp add: NewLookup_def startIdx_def Get_empty)
next
  assume "fs path = Records [field0 # others] \<and> Contains (ToLower field0) ''cap''"
  then show "\<exists>l. NewLookup fs path = Loaded l \<and> (\<forall>c. Get l c = None)"
    by (simp add: NewLookup_def startIdx_def Get_empty)
next
  show "NewLookup fs path = LoadError e \<longleftrightarrow>
      (\<exists>u. fs path = OpenFails u \<and> e = FailedToOpen u) \<or>
      (\<exists>u. fs path = ReadFails u \<and> e = FailedToRead u)"
    by (cases "fs path") (auto simp: NewLookup_def split: option.splits)
next
  assume a: "fs path = Records records \<and> (\<forall>r \<in> set records. r \<noteq> [])"
  then have "records = [] \<or> hd records \<noteq> []"
    by (cases records) auto
  then obtain i where "startIdx records = Some i"
    using startIdx_Some by blast
  with a show "\<exists>l. NewLookup fs path = Loaded l"
    by (simp add: NewLookup_def)
qed

theorem NewLookup_without_data_rows_witness:
  "(\<exists>l. NewLookup sampleFs ''empty.csv'' = Loaded l \<and> (\<forall>c. Get l c = None)) \<and>
   (\<exists>l. NewLookup sampleFs ''header.csv'' = Loaded l \<and> (\<forall>c. Get l c = None)) \<and>
   NewLookup sampleFs ''missing.csv'' = LoadError (FailedToOpen ''no such file'') \<and>
   NewLookup sampleFs ''broken.csv'' = LoadError (FailedToRead ''bare quote'') \<and>
   (\<exists>l. NewLookup sampleFs ''data.csv'' = Loaded l)"
proof -
  have h: "Contains (ToLower ''Capcode'') ''cap''"
    by (simp add: ToLower_def lowerChar_def)
  have e: "sampleFs ''empty.csv'' = Records []"
    and hd: "sampleFs ''header.csv'' =
      Records [''Capcode'' # [''Agency'', ''Region'', ''Station'', ''Function'']]"
    and m: "sampleFs ''missing.csv'' = OpenFails ''no such file''"
    and b: "sampleFs ''broken.csv'' = ReadFails ''bare quote''"
    and d: "sampleFs ''data.csv'' =
      Records [[''Capcode'', ''Agency'', ''Region'', ''Station'', ''Function''],
               [''0101001'', ''Brandweer'', ''Utrecht'', ''Centrum'', ''Kazernealarm''],
               [''0101002'', ''Ambulance'']]"
    by (simp_all add: sampleFs_def)
  show ?thesis
    using NewLookup_without_data_rows [of sampleFs "''empty.csv''" "''Capcode''"
        "[''Agency'', ''Region'', ''Station'', ''Function'']" "FailedToOpen ''x''" "[]"]
      NewLookup_without_data_rows [of sampleFs "''header.csv''" "''Capcode''"
        "[''Agency'', ''Region'', ''Station'', ''Function'']" "FailedToOpen ''x''" "[]"]
      NewLookup_without_data_rows [of sampleFs "''missing.csv''" "''Capcode''" "[]"
        "FailedToOpen ''no such file''" "[]"]
      NewLookup_without_data_rows [of sampleFs "''broken.csv''" "''Capcode''" "[]"
        "FailedToRead ''bare quote''" "[]"]
      NewLookup_without_data_rows [of sampleFs "''data.csv''" "''Capcode''" "[]"
        "FailedToOpen ''x''"
        "[[''Capcode'', ''Agency'', ''Region'', ''Station'', ''Function''],
          [''0101001'', ''Brandweer'', ''Utrecht'', ''Centrum'', ''Kazernealarm''],
          [''0101002'', ''Ambulance'']]"]
    by (simp add: h e hd m b d)
qed

section \<open>Properties of the status feed\<close>

lemma statusOK_NewClient: "statusOK (NewClient handler)"
  by (simp add: statusOK_def NewClient_def makeChan_def)

lemma notifyStatus_Returns:
  "statusOK c \<Longrightarrow> \<exists>c'. notifyStatus c connected = Returns c' \<and> statusOK c'
     \<and> conn c' = conn c \<and> backoff c' = backoff c \<and> msgHandler c' = msgHandler c
     \<and> doneChan c' = doneChan c"
  by (auto simp: statusOK_def notifyStatus_def selectSendDefault_def chanSend_def)

lemma receiveStatus_statusOK:
  "statusOK c \<Longrightarrow> receiveStatus c = Returns (v, c') \<Longrightarrow> statusOK c'"
  by (auto simp: statusOK_def receiveStatus_def chanRecv_def split: list.splits if_splits)

lemma receiveStatus_no_panic: "receiveStatus c \<noteq> Panics m"
  by (auto simp: receiveStatus_def chanRecv_def split: list.splits)

lemma runStatus_Returns:
  "statusOK c \<Longrightarrow> \<exists>c'. runStatus c ops = Returns c' \<and> statusOK c'"
proof (induction ops arbitrary: c)
  case Nil
  then show ?case by simp
next
  case (Cons op ops)
  show ?case
  proof (cases op)
    case (Report connected)
    from notifyStatus_Returns [OF Cons.prems, of connected]
    obtain c1 where "notifyStatus c connected = Returns c1" "statusOK c1" by blast
    with Cons.IH [of c1] Report show ?thesis by simp
  next
    case Receive
    show ?thesis
    proof (cases "receiveStatus c")
      case (Returns r)
      obtain v c1 where r: "r = (v, c1)" by (cases r)
      with Returns Cons.prems have "statusOK c1"
        using receiveStatus_statusOK by blast
      with Cons.IH [of c1] Receive Returns r show ?thesis by simp
    next
      case Blocks
      with Cons.IH [OF Cons.prems] Receive show ?thesis by simp
    next
      case (Panics m)
      then show ?thesis using receiveStatus_no_panic by blast
    qed
  qed
qed

text \<open>
  C7.  The status channel of a new client has capacity 1 and is empty.  Whatever
  the sequence of reports and of receptions by the consumer, every report returns (it
  neither blocks nor panics) and the channel never holds more than one status.  On
  a channel that still holds a status, where a plain send would block, the report
  returns with the client unchanged: the new status is dropped.  On an empty channel
  the report stores the status.
\<close>

theorem notifyStatus_never_blocks:
  "chCap (statusChan (NewClient handler)) = 1 \<and>
   chBuf (statusChan (NewClient handler)) = [] \<and>
   (\<exists>c'. runStatus (NewClient handler) ops = Returns c' \<and>
      length (chBuf (statusChan c')) \<le> 1) \<and>
   (statusOK c \<and> chBuf (statusChan c) = [old] \<longrightarrow>
      chanSend (statusChan c) new = Blocks \<and> notifyStatus c new = Returns c) \<and>
   (statusOK c \<and> chBuf (statusChan c) = [] \<longrightarrow>
      notifyStatus c new = Returns (c\<lparr>statusChan := (statusChan c)\<lparr>chBuf := [new]\<rparr>\<rparr>))"
proof -
  have 1: "chCap (statusChan (NewClient handler)) = 1 \<and>
      chBuf (statusChan (NewClient handler)) = []"
    by (simp add: NewClient_def makeChan_def)
  have 2: "\<exists>c'. runStatus (NewClient handler) ops = Returns c' \<and>
      length (chBuf (statusChan c')) \<le> 1"
    using runStatus_Returns [OF statusOK_NewClient, of handler ops]
    by (auto simp: statusOK_def)
  have 3: "statusOK c \<and> chBuf (statusChan c) = [old] \<longrightarrow>
      chanSend (statusChan c) new = Blocks \<and> notifyStatus c new = Returns c"
    by (simp add: statusOK_def notifyStatus_def selectSendDefault_def chanSend_def)
  have 4: "statusOK c \<and> chBuf (statusChan c) = [] \<longrightarrow>
      notifyStatus c new = Returns (c\<lparr>statusChan := (statusChan c)\<lparr>chBuf := [new]\<rparr>\<rparr>)"
    by (simp add: statusOK_def notifyStatus_def selectSendDefault_def chanSend_def)
  from 1 2 3 4 show ?thesis by blast
qed

theorem notifyStatus_never_blocks_witness:
  "statusOK (NewClient True) \<and>
   notifyStatus (NewClient True) True =
     Returns ((NewClient True)\<lparr>statusChan := (makeChan 1)\<lparr>chBuf := [True]\<rparr>\<rparr>) \<and>
   statusOK ((NewClient True)\<lparr>statusChan := (makeChan 1)\<lparr>chBuf := [True]\<rparr>\<rparr>) \<and>
   chanSend (statusChan ((NewClient True)\<lparr>statusChan := (makeChan 1)\<lparr>chBuf := [True]\<rparr>\<rparr>)) False
     = Blocks \<and>
   notifyStatus ((NewClient True)\<lparr>statusChan := (makeChan 1)\<lparr>chBuf := [True]\<rparr>\<rparr>) False =
     Returns ((NewClient True)\<lparr>statusChan := (makeChan 1)\<lparr>chBuf := [True]\<rparr>\<rparr>) \<and>
   runStatus (NewClient True) [Report True, Report False, Receive, Receive, Report False] =
     Returns ((NewClient True)\<lparr>statusChan := (makeChan 1)\<lparr>chBuf := [False]\<rparr>\<rparr>)"
proof -
  let ?full = "(NewClient True)\<lparr>statusChan := (makeChan 1)\<lparr>chBuf := [True]\<rparr>\<rparr>"
  have ok0: "statusOK (NewClient True)" and e0: "chBuf (statusChan (NewClient True)) = []"
    and ok1: "statusOK ?full" and e1: "chBuf (statusChan ?full) = [True]"
    by (simp_all add: statusOK_def NewClient_def makeChan_def)
  have upd: "(NewClient True)\<lparr>statusChan := (statusChan (NewClient True))\<lparr>chBuf := [True]\<rparr>\<rparr> = ?full"
    by (simp add: NewClient_def)
  have s0: "notifyStatus (NewClient True) True = Returns ?full"
    using notifyStatus_never_blocks [of True "[]" "NewClient True" True True] ok0 e0 upd
    by metis
  have s1: "chanSend (statusChan ?full) False = Blocks \<and> notifyStatus ?full False = Returns ?full"
    using notifyStatus_never_blocks [of True "[]" ?full True False] ok1 e1
    by metis
  have r: "runStatus (NewClient True) [Report True, Report False, Receive, Receive, Report False] =
     Returns ((NewClient True)\<lparr>statusChan := (makeChan 1)\<lparr>chBuf := [False]\<rparr>\<rparr>)"
    by (simp add: notifyStatus_def receiveStatus_def selectSendDefault_def chanSend_def
        chanRecv_def NewClient_def makeChan_def)
  from ok0 ok1 s0 s1 r show ?thesis by blast
qed

section \<open>Properties of closing\<close>

lemma closeConnection_no_socket: "conn c = None \<Longrightarrow> closeConnection c = (c, [])"
  by (simp add: closeConnection_def)

lemma closeConnection_releases:
  "conn c = Some h \<Longrightarrow>
     closeConnection c = (c\<lparr>conn := None\<rparr>, [WroteCloseFrame h, SocketClosed h])"
  by (simp add: closeConnection_def)

lemma closeConnection_idempotent:
  "closeConnection (fst (closeConnection c)) = (fst (closeConnection c), [])"
  by (cases "conn c") (simp_all add: closeConnection_def)

lemma Close_first:
  "\<not> chClosed (doneChan c) \<Longrightarrow>
     Close c =
       Returns (fst (closeConnection (c\<lparr>doneChan := (doneChan c)\<lparr>chClosed := True\<rparr>\<rparr>)),
                snd (closeConnection (c\<lparr>doneChan := (doneChan c)\<lparr>chClosed := True\<rparr>\<rparr>))
                  @ [LogClientClosed])"
  by (simp add: Close_def chanClose_def split: prod.splits)

lemma Close_second:
  "Close c = Returns (c', evs) \<Longrightarrow> Close c' = Panics ''close of closed channel''"
  by (auto simp: Close_def chanClose_def closeConnection_def
      split: if_splits option.splits prod.splits)

text \<open>
  C8.  The first \<open>Close\<close> of a new client returns; on a client with an open socket it
  writes the close frame, closes the socket and sets \<open>conn\<close> to nil.  The second
  \<open>Close\<close>, on the client that the first one left (no socket open), does not return:
  \<open>close(c.done)\<close> of line 217 closes a closed channel, and the program panics.
\<close>

theorem Close_twice_panics:
  "Close (NewClient True) = Returns (closedOnce, [LogClientClosed]) \<and>
   Close openClient = Returns (closedOnce, [WroteCloseFrame 7, SocketClosed 7, LogClientClosed]) \<and>
   conn closedOnce = None \<and>
   Close closedOnce = Panics ''close of closed channel''"
  by (simp add: Close_def chanClose_def closeConnection_def closedOnce_def openClient_def
      NewClient_def makeChan_def)

section \<open>Properties of the reconnect loop\<close>

lemma expectedDelay_small:
  "expectedDelay 0 = 1000000000" "expectedDelay 1 = 2000000000"
  "expectedDelay 2 = 4000000000" "expectedDelay 3 = 8000000000"
  "expectedDelay 4 = 16000000000"
  by (simp_all add: expectedDelay_def)

lemma expectedDelay_large: "5 \<le> n \<Longrightarrow> expectedDelay n = 30000000000"
proof -
  assume "5 \<le> n"
  then have "(2::int) ^ 5 \<le> 2 ^ n"
    by (intro power_increasing) simp_all
  then show ?thesis by (simp add: expectedDelay_def)
qed

lemma word_of_sint: "sint (w :: 64 word) = k \<Longrightarrow> w = word_of_int k"
  by auto

lemma increaseBackoff_expected:
  assumes "sint (backoff c) = expectedDelay n"
  shows "sint (backoff (increaseBackoff c)) = expectedDelay (Suc n)"
proof -
  consider "n = 0" | "n = 1" | "n = 2" | "n = 3" | "n = 4" | "5 \<le> n"
    by linarith
  then show ?thesis
  proof cases
    case 1
    then have v: "expectedDelay n = 1000000000" "expectedDelay (Suc n) = 2000000000"
      by (simp_all add: expectedDelay_def)
    with assms have "backoff c = 1000000000"
      using word_of_sint [of "backoff c" 1000000000] by simp
    then show ?thesis
      by (simp add: v increaseBackoff_def backoffMultiplier_def maxBackoff_def second_def
          word_sless_alt)
  next
    case 2
    then have v: "expectedDelay n = 2000000000" "expectedDelay (Suc n) = 4000000000"
      by (simp_all add: expectedDelay_def)
    with assms have "backoff c = 2000000000"
      using word_of_sint [of "backoff c" 2000000000] by simp
    then show ?thesis
      by (simp add: v increaseBackoff_def backoffMultiplier_def maxBackoff_def second_def
          word_sless_alt)
  next
    case 3
    then have v: "expectedDelay n = 4000000000" "expectedDelay (Suc n) = 8000000000"
      by (simp_all add: expectedDelay_def)
    with assms have "backoff c = 4000000000"
      using word_of_sint [of "backoff c" 4000000000] by simp
    then show ?thesis
      by (simp add: v increaseBackoff_def backoffMultiplier_def maxBackoff_def second_def
          word_sless_alt)
  next
    case 4
    then have v: "expectedDelay n = 8000000000" "expectedDelay (Suc n) = 16000000000"
      by (simp_all add: expectedDelay_def)
    with assms have "backoff c = 8000000000"
      using word_of_sint [of "backoff c" 8000000000] by simp
    then show ?thesis
      by (simp add: v increaseBackoff_def backoffMultiplier_def maxBackoff_def second_def
          word_sless_alt)
  next
    case 5
    then have v: "expectedDelay n = 16000000000" "expectedDelay (Suc n) = 30000000000"
      by (simp_all add: expectedDelay_def)
    with assms have "backoff c = 16000000000"
      using word_of_sint [of "backoff c" 16000000000] by simp
    then show ?thesis
      by (simp add: v increaseBackoff_def backoffMultiplier_def maxBackoff_def second_def
          word_sless_alt)
  next
    case 6
    then have v: "expectedDelay n = 30000000000" "expectedDelay (Suc n) = 30000000000"
      by (simp_all add: expectedDelay_large)
    with assms have "backoff c = 30000000000"
      using word_of_sint [of "backoff c" 30000000000] by simp
    then show ?thesis
      by (simp add: v increaseBackoff_def backoffMultiplier_def maxBackoff_def second_def
          word_sless_alt)
  qed
qed

lemma initialBackoff_expected: "sint initialBackoff = expectedDelay 0"
  by (simp add: initialBackoff_def second_def expectedDelay_def)

lemma delaysFrom_readLoop:
  "delaysFrom n (readLoop lib c frames @ rest) = delaysFrom n rest"
  by (induction frames) (simp_all add: handleMessage_def split: option.splits)

lemma delaysFrom_closeConnection:
  "delaysFrom n (snd (closeConnection c) @ rest) = delaysFrom n rest"
  by (simp add: closeConnection_def split: option.splits)

lemma closeConnection_keeps:
  "statusChan (fst (closeConnection c)) = statusChan c \<and>
   backoff (fst (closeConnection c)) = backoff c \<and>
   conn (fst (closeConnection c)) = None"
  by (simp add: closeConnection_def split: option.splits)

lemma statusOK_cong:
  "statusChan c' = statusChan c \<Longrightarrow> statusOK c' = statusOK c"
  by (simp add: statusOK_def)

lemma connectAndListen_DialError:
  "connectAndListen lib c (DialError e) = Returns (c, [], DialFailed e)"
  by (simp add: connectAndListen_def)

lemma connectAndListen_DialOK:
  assumes "statusOK c"
  shows "\<exists>c' evs err. connectAndListen lib c (DialOK h frames ending) =
           Returns (c', LogConnected # evs, err)
         \<and> statusOK c' \<and> backoff c' = initialBackoff \<and> conn c' = None
         \<and> (\<forall>n rest. delaysFrom n (evs @ rest) = delaysFrom n rest)"
proof -
  have "statusOK (resetBackoff (c\<lparr>conn := Some h\<rparr>))"
    using assms by (simp add: statusOK_def resetBackoff_def)
  from notifyStatus_Returns [OF this, of True]
  obtain c2 where c2: "notifyStatus (resetBackoff (c\<lparr>conn := Some h\<rparr>)) True = Returns c2"
    "statusOK c2" "backoff c2 = initialBackoff"
    by (auto simp: resetBackoff_def)
  let ?c3 = "fst (closeConnection c2)"
  let ?evs = "readLoop lib c2 frames @ snd (closeConnection c2)"
  let ?err = "case ending of ReadError e \<Rightarrow> ReadFailed e | CtxDoneInLoop \<Rightarrow> CtxErr"
  have "connectAndListen lib c (DialOK h frames ending) = Returns (?c3, LogConnected # ?evs, ?err)"
    by (simp add: connectAndListen_def c2 split: prod.splits)
  moreover have "statusOK ?c3" "backoff ?c3 = initialBackoff" "conn ?c3 = None"
    using c2 closeConnection_keeps [of c2] by (simp_all add: statusOK_def)
  moreover have "\<forall>n rest. delaysFrom n (?evs @ rest) = delaysFrom n rest"
    by (simp add: delaysFrom_readLoop delaysFrom_closeConnection)
  ultimately show ?thesis by blast
qed

lemma connectAndListen_step:
  assumes "statusOK c" and "sint (backoff c) = expectedDelay n"
  shows "\<exists>c' evs err m. connectAndListen lib c d = Returns (c', evs, err)
         \<and> statusOK c' \<and> sint (backoff c') = expectedDelay m
         \<and> (\<forall>rest. delaysFrom n (evs @ rest) = delaysFrom m rest)"
proof (cases d)
  case (DialError e)
  then show ?thesis
    using assms by (auto simp: connectAndListen_DialError)
next
  case (DialOK h frames ending)
  from connectAndListen_DialOK [OF assms(1), of lib h frames ending]
  obtain c' evs err where r: "connectAndListen lib c (DialOK h frames ending) =
           Returns (c', LogConnected # evs, err)"
    "statusOK c'" "backoff c' = initialBackoff"
    "\<forall>n rest. delaysFrom n (evs @ rest) = delaysFrom n rest"
    by blast
  have "\<forall>rest. delaysFrom n ((LogConnected # evs) @ rest) = delaysFrom 0 rest"
    using r(4) by simp
  with r DialOK show ?thesis
    using initialBackoff_expected by metis
qed

lemma Connect_delays:
  assumes "statusOK c" and "sint (backoff c) = expectedDelay n"
  shows "\<exists>c' evs. Connect lib c rounds = Returns (c', evs, CtxErr) \<and> delaysFrom n evs"
  using assms
proof (induction rounds arbitrary: c n)
  case Nil
  then show ?case by simp
next
  case (Cons round rounds)
  obtain d w where round: "round = (d, w)" by (cases round)
  from connectAndListen_step [OF Cons.prems, of lib d]
  obtain c1 evs err m where s: "connectAndListen lib c d = Returns (c1, evs, err)"
    "statusOK c1" "sint (backoff c1) = expectedDelay m"
    "\<forall>rest. delaysFrom n (evs @ rest) = delaysFrom m rest"
    by blast
  from notifyStatus_Returns [OF s(2), of False]
  obtain c2 where c2: "notifyStatus c1 False = Returns c2" "statusOK c2"
    "backoff c2 = backoff c1"
    by blast
  show ?case
  proof (cases "err = CtxErr \<or> w = CtxDoneInWait")
    case True
    then have "Connect lib c (round # rounds) =
        Returns (c2, evs @ [LogRetry err (backoff c2), WaitInterrupted (backoff c2)], CtxErr)"
      using round s(1) c2(1) by simp
    moreover have "delaysFrom n (evs @ [LogRetry err (backoff c2), WaitInterrupted (backoff c2)])"
      using s(3,4) c2(3) by simp
    ultimately show ?thesis by blast
  next
    case False
    have ok: "statusOK (increaseBackoff c2)"
      using c2(2) by (simp add: statusOK_def increaseBackoff_def Let_def)
    have b: "sint (backoff (increaseBackoff c2)) = expectedDelay (Suc m)"
      using increaseBackoff_expected [of c2 m] s(3) c2(3) by simp
    from Cons.IH [OF ok b]
    obtain c' evs' where r: "Connect lib (increaseBackoff c2) rounds = Returns (c', evs', CtxErr)"
      "delaysFrom (Suc m) evs'"
      by blast
    have "Connect lib c (round # rounds) =
        Returns (c', evs @ [LogRetry err (backoff c2), TimerFired (backoff c2)] @ evs', CtxErr)"
      using False round s(1) c2(1) r(1) by simp
    moreover have "delaysFrom n (evs @ [LogRetry err (backoff c2), TimerFired (backoff c2)] @ evs')"
      using s(3,4) c2(3) r(2) by simp
    ultimately show ?thesis by blast
  qed
qed

text \<open>
  C1.  Every run of \<open>Connect\<close> on a new client returns only by the cancelled context,
  and its events obey the expected delays: the wait that follows \<open>n\<close> earlier waits
  since the last established connection (or since the start) lasts
  \<open>min (1s * 2 ^ n) 30s\<close>.  A round that establishes a connection leaves
  \<open>connectAndListen\<close> with the backoff at \<open>initialBackoff\<close> (1 s), whether frames were
  read or not: the reset precedes the reading.  \<open>increaseBackoff\<close>, applied \<open>n\<close> times
  to a new client, gives the expected delay of \<open>n\<close>.
\<close>

theorem Connect_backoff_sequence:
  "(\<exists>c' evs. Connect lib (NewClient handler) rounds = Returns (c', evs, CtxErr)
      \<and> delaysFrom 0 evs) \<and>
   (statusOK c \<longrightarrow>
      (\<exists>c' evs err. connectAndListen lib c (DialOK h frames ending) =
           Returns (c', LogConnected # evs, err)
         \<and> backoff c' = initialBackoff)) \<and>
   sint (backoff ((increaseBackoff ^^ n) (NewClient handler))) =
     min (1000000000 * 2 ^ n) 30000000000 \<and>
   sint initialBackoff = 1000000000"
proof -
  have b0: "sint (backoff (NewClient handler)) = expectedDelay 0"
    by (simp add: NewClient_def initialBackoff_expected)
  have 1: "\<exists>c' evs. Connect lib (NewClient handler) rounds = Returns (c', evs, CtxErr)
      \<and> delaysFrom 0 evs"
    using Connect_delays [OF statusOK_NewClient b0] by blast
  have 2: "statusOK c \<longrightarrow>
      (\<exists>c' evs err. connectAndListen lib c (DialOK h frames ending) =
           Returns (c', LogConnected # evs, err)
         \<and> backoff c' = initialBackoff)"
    using connectAndListen_DialOK [of c lib h frames ending] by blast
  have "sint (backoff ((increaseBackoff ^^ n) (NewClient handler))) = expectedDelay n"
    by (induction n) (simp_all add: b0 increaseBackoff_expected)
  then have 3: "sint (backoff ((increaseBackoff ^^ n) (NewClient handler))) =
     min (1000000000 * 2 ^ n) 30000000000"
    by (simp add: expectedDelay_def)
  have 4: "sint initialBackoff = 1000000000"
    by (simp add: initialBackoff_def second_def)
  from 1 2 3 4 show ?thesis by blast
qed

lemma sampleRun:
  "Connect sampleLib (NewClient True) sampleRounds = Returns (sampleEnd, sampleEvents, CtxErr)"
  by code_simp

theorem Connect_backoff_sequence_witness:
  "Connect sampleLib (NewClient True) sampleRounds = Returns (sampleEnd, sampleEvents, CtxErr) \<and>
   delaysFrom 0 sampleEvents \<and>
   waits sampleEvents = [1000000000, 2000000000, 1000000000] \<and>
   statusOK (NewClient True) \<and>
   (\<exists>c' evs err. connectAndListen sampleLib (NewClient True) (DialOK 7 [] (ReadError ''EOF'')) =
      Returns (c', LogConnected # evs, err) \<and> backoff c' = initialBackoff) \<and>
   map (\<lambda>n. sint (backoff ((increaseBackoff ^^ n) (NewClient True)))) [0, 1, 2, 3, 4, 5, 6] =
     [1000000000, 2000000000, 4000000000, 8000000000, 16000000000, 30000000000, 30000000000]"
proof -
  note t = Connect_backoff_sequence [of sampleLib True sampleRounds "NewClient True" 7 "[]"
      "ReadError ''EOF''"]
  have ok: "statusOK (NewClient True)"
    by (rule statusOK_NewClient)
  from t [of 0] obtain c' evs where
    "Connect sampleLib (NewClient True) sampleRounds = Returns (c', evs, CtxErr)"
    "delaysFrom 0 evs"
    by blast
  with sampleRun have d: "delaysFrom 0 sampleEvents" by simp
  have w: "waits sampleEvents = [1000000000, 2000000000, 1000000000]"
    by (simp add: sampleEvents_def)
  have c: "\<exists>c' evs err.
      connectAndListen sampleLib (NewClient True) (DialOK 7 [] (ReadError ''EOF'')) =
      Returns (c', LogConnected # evs, err) \<and> backoff c' = initialBackoff"
    using t [of 0] ok by blast
  have b: "map (\<lambda>n. sint (backoff ((increaseBackoff ^^ n) (NewClient True)))) [0, 1, 2, 3, 4, 5, 6] =
     [1000000000, 2000000000, 4000000000, 8000000000, 16000000000, 30000000000, 30000000000]"
    using t [of 0] t [of 1] t [of 2] t [of 3] t [of 4] t [of 5] t [of 6]
    by simp
  from sampleRun d w ok c b show ?thesis by blast
qed

section \<open>Properties of the decoding of frames\<close>

lemma findField_in_tags: "findField lib tags key = Some tag \<Longrightarrow> tag \<in> set tags"
  by (auto simp: findField_def find_Some_iff split: if_splits)

lemma present_Cons:
  "present lib tags ((key, v) # rest) tag =
     (findField lib tags key = Some tag \<or> present lib tags rest tag)"
  by (auto simp: present_def)

lemma setSignalField_keeps:
  assumes "setSignalField lib tag' v sig = Some sig'" and "tag' \<in> set signalTags"
  shows "(tag' \<noteq> ''baudrate'' \<longrightarrow> Baudrate sig' = Baudrate sig) \<and>
         (tag' \<noteq> ''frame'' \<longrightarrow> Frame sig' = Frame sig) \<and>
         (tag' \<noteq> ''subtype'' \<longrightarrow> Subtype sig' = Subtype sig) \<and>
         (tag' \<noteq> ''function'' \<longrightarrow> sigFunction sig' = sigFunction sig)"
  using assms by (auto simp: setSignalField_def signalTags_def split: if_splits)

lemma fillSignal_keeps:
  assumes "fillSignal lib entries sig = Some sig'"
  shows "(\<not> present lib signalTags entries ''baudrate'' \<longrightarrow> Baudrate sig' = Baudrate sig) \<and>
         (\<not> present lib signalTags entries ''frame'' \<longrightarrow> Frame sig' = Frame sig) \<and>
         (\<not> present lib signalTags entries ''subtype'' \<longrightarrow> Subtype sig' = Subtype sig) \<and>
         (\<not> present lib signalTags entries ''function'' \<longrightarrow> sigFunction sig' = sigFunction sig)"
  using assms
proof (induction entries arbitrary: sig)
  case Nil
  then show ?case by simp
next
  case (Cons entry entries)
  obtain key v where entry: "entry = (key, v)" by (cases entry)
  show ?case
  proof (cases "findField lib signalTags key")
    case None
    with Cons entry show ?thesis by (simp add: present_Cons)
  next
    case (Some tag')
    with Cons.prems entry obtain sig1 where s: "setSignalField lib tag' v sig = Some sig1"
      "fillSignal lib entries sig1 = Some sig'"
      by (auto split: option.splits)
    from setSignalField_keeps [OF s(1) findField_in_tags [OF Some]] Cons.IH [OF s(2)]
    show ?thesis using Some entry by (auto simp: present_Cons)
  qed
qed

lemma setMessageField_keeps:
  assumes "setMessageField lib tag' v msg = Some msg'" and "tag' \<in> set messageTags"
  shows "(tag' \<noteq> ''type'' \<longrightarrow> msgType msg' = msgType msg) \<and>
         (tag' \<noteq> ''timestamp'' \<longrightarrow> msgTimestamp msg' = msgTimestamp msg) \<and>
         (tag' \<noteq> ''signal'' \<longrightarrow> msgSignal msg' = msgSignal msg) \<and>
         (tag' \<noteq> ''frequency_error'' \<longrightarrow> msgFrequencyErr msg' = msgFrequencyErr msg) \<and>
         (tag' \<noteq> ''capcodes'' \<longrightarrow> msgCapcodes msg' = msgCapcodes msg) \<and>
         (tag' \<noteq> ''message'' \<longrightarrow> msgMessage msg' = msgMessage msg) \<and>
         (tag' \<noteq> ''agency'' \<longrightarrow> msgAgency msg' = msgAgency msg)"
  using assms by (auto simp: setMessageField_def messageTags_def split: if_splits)

lemma fillMessage_keeps:
  assumes "fillMessage lib entries msg = Some msg'"
  shows "(\<not> present lib messageTags entries ''type'' \<longrightarrow> msgType msg' = msgType msg) \<and>
         (\<not> present lib messageTags entries ''timestamp'' \<longrightarrow>
            msgTimestamp msg' = msgTimestamp msg) \<and>
         (\<not> present lib messageTags entries ''signal'' \<longrightarrow> msgSignal msg' = msgSignal msg) \<and>
         (\<not> present lib messageTags entries ''frequency_error'' \<longrightarrow>
            msgFrequencyErr msg' = msgFrequencyErr msg) \<and>
         (\<not> present lib messageTags entries ''capcodes'' \<longrightarrow> msgCapcodes msg' = msgCapcodes msg) \<and>
         (\<not> present lib messageTags entries ''message'' \<longrightarrow> msgMessage msg' = msgMessage msg) \<and>
         (\<not> present lib messageTags entries ''agency'' \<longrightarrow> msgAgency msg' = msgAgency msg)"
  using assms
proof (induction entries arbitrary: msg)
  case Nil
  then show ?case by simp
next
  case (Cons entry entries)
  obtain key v where entry: "entry = (key, v)" by (cases entry)
  show ?case
  proof (cases "findField lib messageTags key")
    case None
    with Cons entry show ?thesis by (simp add: present_Cons)
  next
    case (Some tag')
    with Cons.prems entry obtain msg1 where s: "setMessageField lib tag' v msg = Some msg1"
      "fillMessage lib entries msg1 = Some msg'"
      by (auto split: option.splits)
    from setMessageField_keeps [OF s(1) findField_in_tags [OF Some]] Cons.IH [OF s(2)]
    show ?thesis using Some entry by (auto simp: present_Cons)
  qed
qed

lemma fillMessage_unknown_key:
  "findField lib messageTags key = None \<Longrightarrow>
     fillMessage lib (before @ (key, v) # after) msg = fillMessage lib (before @ after) msg"
  by (induction before arbitrary: msg) (auto split: option.splits)

lemma fillMessage_all_unknown:
  "\<forall>entry \<in> set entries. findField lib messageTags (fst entry) = None \<Longrightarrow>
     fillMessage lib entries msg = Some msg"
  by (induction entries) auto

lemma readLoop_append:
  "readLoop lib c (before @ after) = readLoop lib c before @ readLoop lib c after"
  by (induction before) simp_all

lemma handled_append: "handled (xs @ ys) = handled xs @ handled ys"
  by (induction xs rule: handled.induct) simp_all

lemma handled_readLoop:
  "msgHandler c \<Longrightarrow>
     handled (readLoop lib c frames) = List.map_filter (\<lambda>b. Unmarshal lib b zeroMessage) frames"
  by (induction frames)
    (auto simp: handled_append handleMessage_def List.map_filter_simps split: option.splits)

lemma readLoop_handler_only:
  "msgHandler c' = msgHandler c \<Longrightarrow> readLoop lib c' frames = readLoop lib c frames"
  by (induction frames) (simp_all add: handleMessage_def split: option.splits)

lemma connectAndListen_events:
  assumes "statusOK c"
  shows "\<exists>c' err. connectAndListen lib c (DialOK h frames ending) =
           Returns (c', LogConnected # readLoop lib c frames @ [WroteCloseFrame h, SocketClosed h],
                    err)"
proof -
  have "statusOK (resetBackoff (c\<lparr>conn := Some h\<rparr>))"
    using assms by (simp add: statusOK_def resetBackoff_def)
  from notifyStatus_Returns [OF this, of True]
  obtain c2 where c2: "notifyStatus (resetBackoff (c\<lparr>conn := Some h\<rparr>)) True = Returns c2"
    "conn c2 = Some h" "msgHandler c2 = msgHandler c"
    by (auto simp: resetBackoff_def)
  have "readLoop lib c2 frames = readLoop lib c frames"
    using c2(3) by (rule readLoop_handler_only)
  then show ?thesis
    by (simp add: connectAndListen_def c2 closeConnection_def)
qed

text \<open>
  C6.  A frame whose payload \<open>Unmarshal\<close> rejects leaves one log line: the handler is
  not called, and the frames after it are handled as if it had not come, so with a
  handler registered the handler sees exactly the payloads that decode, in order.
  The socket is closed once, after the last frame of the connection.  A payload that
  is an object and decodes gives the handler a message in which every field that no
  key of the object is matched with has its zero value; a key that matches no field
  changes nothing and is no error.  The same holds for the fields of \<open>signal\<close>.
\<close>

theorem handleMessage_tolerant:
  "(Unmarshal lib bytes zeroMessage = None \<longrightarrow>
      handleMessage lib c bytes = [LogParseFailed bytes] \<and>
      handled (handleMessage lib c bytes) = []) \<and>
   readLoop lib c (before @ bytes # after) =
     readLoop lib c before @ handleMessage lib c bytes @ readLoop lib c after \<and>
   (msgHandler c \<longrightarrow>
      handled (readLoop lib c frames) =
        List.map_filter (\<lambda>b. Unmarshal lib b zeroMessage) frames) \<and>
   (statusOK c \<longrightarrow>
      (\<exists>c' err. connectAndListen lib c (DialOK h frames ending) =
         Returns (c', LogConnected # readLoop lib c frames @ [WroteCloseFrame h, SocketClosed h],
                  err))) \<and>
   (parse lib bytes = Some (JObject entries) \<and> Unmarshal lib bytes zeroMessage = Some msg \<longrightarrow>
      handleMessage lib c bytes = (if msgHandler c then [HandlerCalled msg] else []) \<and>
      (\<not> present lib messageTags entries ''type'' \<longrightarrow> msgType msg = '''') \<and>
      (\<not> present lib messageTags entries ''timestamp'' \<longrightarrow> msgTimestamp msg = 0) \<and>
      (\<not> present lib messageTags entries ''signal'' \<longrightarrow> msgSignal msg = zeroSignal) \<and>
      (\<not> present lib messageTags entries ''frequency_error'' \<longrightarrow> msgFrequencyErr msg = 0) \<and>
      (\<not> present lib messageTags entries ''capcodes'' \<longrightarrow> msgCapcodes msg = []) \<and>
      (\<not> present lib messageTags entries ''message'' \<longrightarrow> msgMessage msg = '''') \<and>
      (\<not> present lib messageTags entries ''agency'' \<longrightarrow> msgAgency msg = '''')) \<and>
   (findField lib messageTags key = None \<longrightarrow>
      fillMessage lib (xs @ (key, v) # ys) m0 = fillMessage lib (xs @ ys) m0) \<and>
   (fillSignal lib fields' zeroSignal = Some sig \<longrightarrow>
      (\<not> present lib signalTags fields' ''baudrate'' \<longrightarrow> Baudrate sig = 0) \<and>
      (\<not> present lib signalTags fields' ''frame'' \<longrightarrow> Frame sig = 0) \<and>
      (\<not> present lib signalTags fields' ''subtype'' \<longrightarrow> Subtype sig = '''') \<and>
      (\<not> present lib signalTags fields' ''function'' \<longrightarrow> sigFunction sig = ''''))"
proof -
  have 1: "Unmarshal lib bytes zeroMessage = None \<longrightarrow>
      handleMessage lib c bytes = [LogParseFailed bytes] \<and>
      handled (handleMessage lib c bytes) = []"
    by (simp add: handleMessage_def)
  have 2: "readLoop lib c (before @ bytes # after) =
     readLoop lib c before @ handleMessage lib c bytes @ readLoop lib c after"
    by (simp add: readLoop_append)
  have 3: "msgHandler c \<longrightarrow>
      handled (readLoop lib c frames) =
        List.map_filter (\<lambda>b. Unmarshal lib b zeroMessage) frames"
    by (simp add: handled_readLoop)
  have 4: "statusOK c \<longrightarrow>
      (\<exists>c' err. connectAndListen lib c (DialOK h frames ending) =
         Returns (c', LogConnected # readLoop lib c frames @ [WroteCloseFrame h, SocketClosed h],
                  err))"
    using connectAndListen_events by blast
  have 5: "parse lib bytes = Some (JObject entries) \<and> Unmarshal lib bytes zeroMessage = Some msg \<longrightarrow>
      handleMessage lib c bytes = (if msgHandler c then [HandlerCalled msg] else []) \<and>
      (\<not> present lib messageTags entries ''type'' \<longrightarrow> msgType msg = '''') \<and>
      (\<not> present lib messageTags entries ''timestamp'' \<longrightarrow> msgTimestamp msg = 0) \<and>
      (\<not> present lib messageTags entries ''signal'' \<longrightarrow> msgSignal msg = zeroSignal) \<and>
      (\<not> present lib messageTags entries ''frequency_error'' \<longrightarrow> msgFrequencyErr msg = 0) \<and>
      (\<not> present lib messageTags entries ''capcodes'' \<longrightarrow> msgCapcodes msg = []) \<and>
      (\<not> present lib messageTags entries ''message'' \<longrightarrow> msgMessage msg = '''') \<and>
      (\<not> present lib messageTags entries ''agency'' \<longrightarrow> msgAgency msg = '''')"
  proof
    assume a: "parse lib bytes = Some (JObject entries) \<and> Unmarshal lib bytes zeroMessage = Some msg"
    then have f: "fillMessage lib entries zeroMessage = Some msg"
      by (auto simp add: Unmarshal_def)
    have h: "handleMessage lib c bytes = (if msgHandler c then [HandlerCalled msg] else [])"
      using a by (simp add: handleMessage_def)
    from fillMessage_keeps [OF f] h
    show "handleMessage lib c bytes = (if msgHandler c then [HandlerCalled msg] else []) \<and>
      (\<not> present lib messageTags entries ''type'' \<longrightarrow> msgType msg = '''') \<and>
      (\<not> present lib messageTags entries ''timestamp'' \<longrightarrow> msgTimestamp msg = 0) \<and>
      (\<not> present lib messageTags entries ''signal'' \<longrightarrow> msgSignal msg = zeroSignal) \<and>
      (\<not> present lib messageTags entries ''frequency_error'' \<longrightarrow> msgFrequencyErr msg = 0) \<and>
      (\<not> present lib messageTags entries ''capcodes'' \<longrightarrow> msgCapcodes msg = []) \<and>
      (\<not> present lib messageTags entries ''message'' \<longrightarrow> msgMessage msg = '''') \<and>
      (\<not> present lib messageTags entries ''agency'' \<longrightarrow> msgAgency msg = '''')"
      by (simp add: zeroMessage_def)
  qed
  have 6: "findField lib messageTags key = None \<longrightarrow>
      fillMessage lib (xs @ (key, v) # ys) m0 = fillMessage lib (xs @ ys) m0"
    by (simp add: fillMessage_unknown_key)
  have 7: "fillSignal lib fields' zeroSignal = Some sig \<longrightarrow>
      (\<not> present lib signalTags fields' ''baudrate'' \<longrightarrow> Baudrate sig = 0) \<and>
      (\<not> present lib signalTags fields' ''frame'' \<longrightarrow> Frame sig = 0) \<and>
      (\<not> present lib signalTags fields' ''subtype'' \<longrightarrow> Subtype sig = '''') \<and>
      (\<not> present lib signalTags fields' ''function'' \<longrightarrow> sigFunction sig = '''')"
  proof
    assume "fillSignal lib fields' zeroSignal = Some sig"
    from fillSignal_keeps [OF this]
    show "(\<not> present lib signalTags fields' ''baudrate'' \<longrightarrow> Baudrate sig = 0) \<and>
      (\<not> present lib signalTags fields' ''frame'' \<longrightarrow> Frame sig = 0) \<and>
      (\<not> present lib signalTags fields' ''subtype'' \<longrightarrow> Subtype sig = '''') \<and>
      (\<not> present lib signalTags fields' ''function'' \<longrightarrow> sigFunction sig = '''')"
      by (simp add: zeroSignal_def)
  qed
  from 1 2 3 4 5 6 7 show ?thesis by blast
qed

theorem handleMessage_tolerant_witness:
  "Unmarshal sampleLib ''not json'' zeroMessage = None \<and>
   handleMessage sampleLib (NewClient True) ''not json'' = [LogParseFailed ''not json''] \<and>
   parse sampleLib sampleFrame = Some (JObject sampleEntries) \<and>
   Unmarshal sampleLib sampleFrame zeroMessage = Some sampleMessage \<and>
   handleMessage sampleLib (NewClient True) sampleFrame = [HandlerCalled sampleMessage] \<and>
   findField sampleLib messageTags ''MESSAGE'' = Some ''message'' \<and>
   findField sampleLib messageTags ''extra'' = None \<and>
   msgTimestamp sampleMessage = 0 \<and> msgSignal sampleMessage = zeroSignal \<and>
   msgFrequencyErr sampleMessage = 0 \<and> msgAgency sampleMessage = '''' \<and>
   handled (readLoop sampleLib (NewClient True) [''not json'', sampleFrame, ''{}'']) =
     [sampleMessage, zeroMessage]"
proof -
  have u0: "Unmarshal sampleLib ''not json'' zeroMessage = None"
    by code_simp
  have u1: "Unmarshal sampleLib sampleFrame zeroMessage = Some sampleMessage"
    by code_simp
  have u2: "Unmarshal sampleLib ''{}'' zeroMessage = Some zeroMessage"
    by code_simp
  have p1: "parse sampleLib sampleFrame = Some (JObject sampleEntries)"
    by (simp add: sampleLib_def sampleParse_def sampleEntries_def)
  have f: "findField sampleLib messageTags ''MESSAGE'' = Some ''message''"
    "findField sampleLib messageTags ''extra'' = None"
    by code_simp+
  have np: "\<not> present sampleLib messageTags sampleEntries ''timestamp''"
    "\<not> present sampleLib messageTags sampleEntries ''signal''"
    "\<not> present sampleLib messageTags sampleEntries ''frequency_error''"
    "\<not> present sampleLib messageTags sampleEntries ''agency''"
    by code_simp+
  have mh: "msgHandler (NewClient True)"
    by (simp add: NewClient_def)
  note t0 = handleMessage_tolerant [where lib = sampleLib and bytes = "''not json''"
      and c = "NewClient True" and frames = "[''not json'', sampleFrame, ''{}'']"]
  note t1 = handleMessage_tolerant [where lib = sampleLib and bytes = sampleFrame
      and c = "NewClient True" and entries = sampleEntries and msg = sampleMessage]
  have a: "handleMessage sampleLib (NewClient True) ''not json'' = [LogParseFailed ''not json'']"
    using t0 u0 by blast
  have b: "handleMessage sampleLib (NewClient True) sampleFrame = [HandlerCalled sampleMessage]"
    "msgTimestamp sampleMessage = 0" "msgSignal sampleMessage = zeroSignal"
    "msgFrequencyErr sampleMessage = 0" "msgAgency sampleMessage = ''''"
    using t1 u1 p1 np mh by simp_all
  have "handled (readLoop sampleLib (NewClient True) [''not json'', sampleFrame, ''{}'']) =
     List.map_filter (\<lambda>b. Unmarshal sampleLib b zeroMessage) [''not json'', sampleFrame, ''{}'']"
    using t0 mh by blast
  then have c: "handled (readLoop sampleLib (NewClient True) [''not json'', sampleFrame, ''{}'']) =
     [sampleMessage, zeroMessage]"
    by (simp add: List.map_filter_simps u0 u1 u2)
  from u0 a p1 u1 b f c show ?thesis by blast
qed

section \<open>Properties of the delivery attempts\<close>

lemma sendLoop_3: "sendLoop env doRequest 3 lastErr = (SendFailedAfter 3 lastErr, [])"
  by (subst sendLoop.simps) (simp add: maxRetries_def)

lemma sendLoop_2:
  "sendLoop env doRequest 2 lastErr =
     (if ctxDone env 2 then (SendCtxErr, [WaitCancelled 4000000000])
      else case doRequest 2 of
             (Some err, evs) \<Rightarrow>
               (SendFailedAfter 3 (Some err), [Waited 4000000000] @ evs @ [LogAttemptFailed 3 err])
           | (None, evs) \<Rightarrow> (SendOK, [Waited 4000000000] @ evs @ [LogNotificationSent]))"
  by (subst sendLoop.simps)
    (simp add: maxRetries_def retryBackoff_def second_def sendLoop_3 Let_def
      split: prod.splits option.splits)

lemma Suc_Suc_0: "Suc (Suc 0) = 2"
  by simp

lemma sendLoop_1:
  "sendLoop env doRequest (Suc 0) lastErr =
     (if ctxDone env 1 then (SendCtxErr, [WaitCancelled 2000000000])
      else case doRequest 1 of
             (Some err, evs) \<Rightarrow>
               (case sendLoop env doRequest 2 (Some err) of
                  (r, evs') \<Rightarrow> (r, [Waited 2000000000] @ evs @ [LogAttemptFailed 2 err] @ evs'))
           | (None, evs) \<Rightarrow> (SendOK, [Waited 2000000000] @ evs @ [LogNotificationSent]))"
  by (subst sendLoop.simps)
    (simp add: maxRetries_def retryBackoff_def second_def Let_def Suc_Suc_0
      split: prod.splits option.splits)

lemma sendLoop_0:
  "sendLoop env doRequest 0 lastErr =
     (case doRequest 0 of
        (Some err, evs) \<Rightarrow>
          (case sendLoop env doRequest (Suc 0) (Some err) of
             (r, evs') \<Rightarrow> (r, evs @ [LogAttemptFailed 1 err] @ evs'))
      | (None, evs) \<Rightarrow> (SendOK, evs @ [LogNotificationSent]))"
  by (subst sendLoop.simps) (simp add: maxRetries_def split: prod.splits option.splits)

lemma sendLoop_unrolled:
  "sendLoop env doRequest 0 None =
     (case doRequest 0 of
        (None, e0) \<Rightarrow> (SendOK, e0 @ [LogNotificationSent])
      | (Some x0, e0) \<Rightarrow>
          if ctxDone env 1
          then (SendCtxErr, e0 @ [LogAttemptFailed 1 x0, WaitCancelled 2000000000])
          else
            (case doRequest 1 of
               (None, e1) \<Rightarrow>
                 (SendOK, e0 @ [LogAttemptFailed 1 x0, Waited 2000000000] @ e1
                    @ [LogNotificationSent])
             | (Some x1, e1) \<Rightarrow>
                 if ctxDone env 2
                 then (SendCtxErr, e0 @ [LogAttemptFailed 1 x0, Waited 2000000000] @ e1
                         @ [LogAttemptFailed 2 x1, WaitCancelled 4000000000])
                 else
                   (case doRequest 2 of
                      (None, e2) \<Rightarrow>
                        (SendOK, e0 @ [LogAttemptFailed 1 x0, Waited 2000000000] @ e1
                           @ [LogAttemptFailed 2 x1, Waited 4000000000] @ e2
                           @ [LogNotificationSent])
                    | (Some x2, e2) \<Rightarrow>
                        (SendFailedAfter 3 (Some x2),
                         e0 @ [LogAttemptFailed 1 x0, Waited 2000000000] @ e1
                           @ [LogAttemptFailed 2 x1, Waited 4000000000] @ e2
                           @ [LogAttemptFailed 3 x2]))))"
  by (simp add: sendLoop_0 sendLoop_1 sendLoop_2 split: prod.splits option.splits)

lemma sendRequest_events:
  "snd (sendRequest env n title message priority tags i) = [] \<or>
   (\<exists>req. snd (sendRequest env n title message priority tags i) = [Sent req])"
  by (simp add: sendRequest_def Let_def split: option.splits httpOutcome.splits)

lemma sendRequest_success:
  "fst (sendRequest env n title message priority tags i) = None \<longleftrightarrow>
     (\<exists>req statusCode. snd (sendRequest env n title message priority tags i) = [Sent req] \<and>
        httpDo env i req = Response statusCode \<and> 200 \<le> statusCode \<and> statusCode < 300)"
  by (auto simp add: sendRequest_def Let_def split: option.splits httpOutcome.splits)

lemma readings_append:
  "requestsSent (xs @ ys) = requestsSent xs + requestsSent ys"
  "attemptsMade (xs @ ys) = attemptsMade xs + attemptsMade ys"
  "waitedFor (xs @ ys) = waitedFor xs @ waitedFor ys"
  by (induction xs rule: requestsSent.induct) simp_all

lemma Send_unrolled:
  "Send env n msg =
     (case attemptOf env n msg 0 of
        (None, e0) \<Rightarrow> (SendOK, e0 @ [LogNotificationSent])
      | (Some x0, e0) \<Rightarrow>
          if ctxDone env 1
          then (SendCtxErr, e0 @ [LogAttemptFailed 1 x0, WaitCancelled 2000000000])
          else
            (case attemptOf env n msg 1 of
               (None, e1) \<Rightarrow>
                 (SendOK, e0 @ [LogAttemptFailed 1 x0, Waited 2000000000] @ e1
                    @ [LogNotificationSent])
             | (Some x1, e1) \<Rightarrow>
                 if ctxDone env 2
                 then (SendCtxErr, e0 @ [LogAttemptFailed 1 x0, Waited 2000000000] @ e1
                         @ [LogAttemptFailed 2 x1, WaitCancelled 4000000000])
                 else
                   (case attemptOf env n msg 2 of
                      (None, e2) \<Rightarrow>
                        (SendOK, e0 @ [LogAttemptFailed 1 x0, Waited 2000000000] @ e1
                           @ [LogAttemptFailed 2 x1, Waited 4000000000] @ e2
                           @ [LogNotificationSent])
                    | (Some x2, e2) \<Rightarrow>
                        (SendFailedAfter 3 (Some x2),
                         e0 @ [LogAttemptFailed 1 x0, Waited 2000000000] @ e1
                           @ [LogAttemptFailed 2 x1, Waited 4000000000] @ e2
                           @ [LogAttemptFailed 3 x2]))))"
  unfolding Send_def Let_def attemptOf_def by (rule sendLoop_unrolled)

lemma attemptOf_readings:
  "requestsSent (snd (attemptOf env n msg i)) \<le> 1 \<and>
   attemptsMade (snd (attemptOf env n msg i)) = 0 \<and>
   waitedFor (snd (attemptOf env n msg i)) = [] \<and>
   (\<not> isWait z \<longrightarrow> \<not> isWait (hd (snd (attemptOf env n msg i) @ z # rest)))"
  using sendRequest_events [of env n "formatTitle n msg" "formatMessage n msg" defaultPriority
      "getTags (msgType msg)" i]
  by (auto simp: attemptOf_def)

lemma Send_readings:
  "requestsSent (snd (Send env n msg)) \<le> 3 \<and>
   attemptsMade (snd (Send env n msg)) \<le> 3 \<and>
   waitedFor (snd (Send env n msg)) \<in> {[], [2000000000], [2000000000, 4000000000]} \<and>
   snd (Send env n msg) \<noteq> [] \<and>
   \<not> isWait (hd (snd (Send env n msg)))"
proof -
  obtain x0 e0 where a0: "attemptOf env n msg 0 = (x0, e0)" by (cases "attemptOf env n msg 0")
  obtain x1 e1 where a1: "attemptOf env n msg 1 = (x1, e1)" by (cases "attemptOf env n msg 1")
  obtain x2 e2 where a2: "attemptOf env n msg 2 = (x2, e2)" by (cases "attemptOf env n msg 2")
  have a1': "attemptOf env n msg (Suc 0) = (x1, e1)" using a1 by simp
  have r0: "requestsSent e0 \<le> 1" "attemptsMade e0 = 0" "waitedFor e0 = []"
    "\<And>z rest. \<not> isWait z \<Longrightarrow> \<not> isWait (hd (e0 @ z # rest))"
    using attemptOf_readings [of env n msg 0] a0 by auto
  have r1: "requestsSent e1 \<le> 1" "attemptsMade e1 = 0" "waitedFor e1 = []"
    using attemptOf_readings [of env n msg 1] a1 by auto
  have r2: "requestsSent e2 \<le> 1" "attemptsMade e2 = 0" "waitedFor e2 = []"
    using attemptOf_readings [of env n msg 2] a2 by auto
  show ?thesis
    using r0(1,2,3) r1 r2 r0(4) [of LogNotificationSent] r0(4) [of "LogAttemptFailed 1 (the x0)"]
    by (cases x0; cases x1; cases x2)
      (simp_all add: Send_unrolled a0 a1' a2 readings_append)
qed

text \<open>
  C2.  \<open>Send\<close> makes at most three attempts and hands at most three requests to the
  HTTP client.  It starts no wait before the first attempt; the wait before the
  second attempt lasts 2 s and the wait before the third 4 s.  When the context is
  cancelled during a wait, \<open>Send\<close> returns the context's error at once, without a
  further attempt.  An attempt succeeds exactly when its request was made and
  answered with a status code from 200 up to, not including, 300; every other
  attempt (a refused request construction, a transport failure, another status) is
  followed by the next one, and after the third failure \<open>Send\<close> returns the error
  that carries the number 3 and the error of the third attempt.
\<close>

theorem Send_retries:
  "Send env n msg =
     (case attemptOf env n msg 0 of
        (None, e0) \<Rightarrow> (SendOK, e0 @ [LogNotificationSent])
      | (Some x0, e0) \<Rightarrow>
          if ctxDone env 1
          then (SendCtxErr, e0 @ [LogAttemptFailed 1 x0, WaitCancelled 2000000000])
          else
            (case attemptOf env n msg 1 of
               (None, e1) \<Rightarrow>
                 (SendOK, e0 @ [LogAttemptFailed 1 x0, Waited 2000000000] @ e1
                    @ [LogNotificationSent])
             | (Some x1, e1) \<Rightarrow>
                 if ctxDone env 2
                 then (SendCtxErr, e0 @ [LogAttemptFailed 1 x0, Waited 2000000000] @ e1
                         @ [LogAttemptFailed 2 x1, WaitCancelled 4000000000])
                 else
                   (case attemptOf env n msg 2 of
                      (None, e2) \<Rightarrow>
                        (SendOK, e0 @ [LogAttemptFailed 1 x0, Waited 2000000000] @ e1
                           @ [LogAttemptFailed 2 x1, Waited 4000000000] @ e2
                           @ [LogNotificationSent])
                    | (Some x2, e2) \<Rightarrow>
                        (SendFailedAfter 3 (Some x2),
                         e0 @ [LogAttemptFailed 1 x0, Waited 2000000000] @ e1
                           @ [LogAttemptFailed 2 x1, Waited 4000000000] @ e2
                           @ [LogAttemptFailed 3 x2])))) \<and>
   (fst (attemptOf env n msg i) = None \<longleftrightarrow>
      (\<exists>req statusCode. snd (attemptOf env n msg i) = [Sent req] \<and>
         httpDo env i req = Response statusCode \<and> 200 \<le> statusCode \<and> statusCode < 300)) \<and>
   requestsSent (snd (Send env n msg)) \<le> 3 \<and>
   attemptsMade (snd (Send env n msg)) \<le> 3 \<and>
   waitedFor (snd (Send env n msg)) \<in> {[], [2000000000], [2000000000, 4000000000]} \<and>
   snd (Send env n msg) \<noteq> [] \<and>
   \<not> isWait (hd (snd (Send env n msg)))"
proof -
  have "fst (attemptOf env n msg i) = None \<longleftrightarrow>
      (\<exists>req statusCode. snd (attemptOf env n msg i) = [Sent req] \<and>
         httpDo env i req = Response statusCode \<and> 200 \<le> statusCode \<and> statusCode < 300)"
    unfolding attemptOf_def by (rule sendRequest_success)
  with Send_unrolled [of env n msg] Send_readings [of env n msg] show ?thesis
    by blast
qed

lemma sampleAttempts:
  "attemptOf envRecovers sampleNotifier sampleMessage 0 =
     (Some (UnexpectedStatus 500), [Sent sampleRequest])"
  "attemptOf envRecovers sampleNotifier sampleMessage 1 =
     (Some (UnexpectedStatus 500), [Sent sampleRequest])"
  "attemptOf envRecovers sampleNotifier sampleMessage 2 = (None, [Sent sampleRequest])"
  "attemptOf envAlways500 sampleNotifier sampleMessage 0 =
     (Some (UnexpectedStatus 500), [Sent sampleRequest])"
  "attemptOf envAlways500 sampleNotifier sampleMessage 1 =
     (Some (UnexpectedStatus 500), [Sent sampleRequest])"
  "attemptOf envAlways500 sampleNotifier sampleMessage 2 =
     (Some (UnexpectedStatus 500), [Sent sampleRequest])"
  "attemptOf envCancelled sampleNotifier sampleMessage 0 =
     (Some (RequestFailed ''connection refused''), [Sent sampleRequest])"
  by (simp_all add: attemptOf_def sendRequest_def sampleNotifier_def NewNotifier_def
      TrimSuffix_def sampleMessage_def formatTitle_def formatMessage_def capcodeLines_def
      getTags_def defaultPriority_def sampleRequest_def envRecovers_def envAlways500_def
      envCancelled_def Let_def)

theorem Send_retries_witness:
  "Send envRecovers sampleNotifier sampleMessage =
     (SendOK,
      [Sent sampleRequest, LogAttemptFailed 1 (UnexpectedStatus 500), Waited 2000000000,
       Sent sampleRequest, LogAttemptFailed 2 (UnexpectedStatus 500), Waited 4000000000,
       Sent sampleRequest, LogNotificationSent]) \<and>
   Send envAlways500 sampleNotifier sampleMessage =
     (SendFailedAfter 3 (Some (UnexpectedStatus 500)),
      [Sent sampleRequest, LogAttemptFailed 1 (UnexpectedStatus 500), Waited 2000000000,
       Sent sampleRequest, LogAttemptFailed 2 (UnexpectedStatus 500), Waited 4000000000,
       Sent sampleRequest, LogAttemptFailed 3 (UnexpectedStatus 500)]) \<and>
   Send envCancelled sampleNotifier sampleMessage =
     (SendCtxErr,
      [Sent sampleRequest, LogAttemptFailed 1 (RequestFailed ''connection refused''),
       WaitCancelled 2000000000]) \<and>
   requestsSent (snd (Send envAlways500 sampleNotifier sampleMessage)) = 3 \<and>
   waitedFor (snd (Send envAlways500 sampleNotifier sampleMessage)) = [2000000000, 4000000000]"
proof -
  have c: "\<not> ctxDone envRecovers 1" "\<not> ctxDone envRecovers 2" "\<not> ctxDone envAlways500 1"
    "\<not> ctxDone envAlways500 2" "ctxDone envCancelled 1"
    by (simp_all add: envRecovers_def envAlways500_def envCancelled_def)
  have 1: "Send envRecovers sampleNotifier sampleMessage =
     (SendOK,
      [Sent sampleRequest, LogAttemptFailed 1 (UnexpectedStatus 500), Waited 2000000000,
       Sent sampleRequest, LogAttemptFailed 2 (UnexpectedStatus 500), Waited 4000000000,
       Sent sampleRequest, LogNotificationSent])"
    using Send_retries [of envRecovers sampleNotifier sampleMessage 0] c sampleAttempts
    by simp
  have 2: "Send envAlways500 sampleNotifier sampleMessage =
     (SendFailedAfter 3 (Some (UnexpectedStatus 500)),
      [Sent sampleRequest, LogAttemptFailed 1 (UnexpectedStatus 500), Waited 2000000000,
       Sent sampleRequest, LogAttemptFailed 2 (UnexpectedStatus 500), Waited 4000000000,
       Sent sampleRequest, LogAttemptFailed 3 (UnexpectedStatus 500)])"
    using Send_retries [of envAlways500 sampleNotifier sampleMessage 0] c sampleAttempts
    by simp
  have 3: "Send envCancelled sampleNotifier sampleMessage =
     (SendCtxErr,
      [Sent sampleRequest, LogAttemptFailed 1 (RequestFailed ''connection refused''),
       WaitCancelled 2000000000])"
    using Send_retries [of envCancelled sampleNotifier sampleMessage 0] c sampleAttempts
    by simp
  have 4: "requestsSent (snd (Send envAlways500 sampleNotifier sampleMessage)) = 3"
    "waitedFor (snd (Send envAlways500 sampleNotifier sampleMessage)) = [2000000000, 4000000000]"
    by (simp_all add: 2)
  from 1 2 3 4 show ?thesis by blast
qed

section \<open>Properties of the authentication of a request\<close>

lemma sendRequest_auth:
  "urlRefused env (server n @ ''/'' @ topic n) = None \<Longrightarrow>
     authOf (snd (sendRequest env n title message priority tags i)) =
       [if token n \<noteq> '''' then Some (''Bearer '' @ token n) else None]"
  by (simp add: sendRequest_def Let_def split: httpOutcome.splits)

lemma sendRequest2_auth:
  "urlRefused env (server2 n @ ''/'' @ topic2 n) = None \<Longrightarrow>
     authOf (snd (sendRequest2 env n title message priority tags i)) =
       [if password2 n \<noteq> '''' then Some (basicAuth env (username2 n) (password2 n))
        else if token2 n \<noteq> '''' then Some (''Bearer '' @ token2 n)
        else None]"
  by (simp add: sendRequest2_def Let_def split: httpOutcome.splits)

lemma sendRequest2_without_password:
  "password2 n2 = '''' \<Longrightarrow> server2 n2 = server n \<Longrightarrow> topic2 n2 = topic n \<Longrightarrow>
   token2 n2 = token n \<Longrightarrow>
     sendRequest2 env n2 title message priority tags i =
     sendRequest env n title message priority tags i"
  by (simp add: sendRequest2_def sendRequest_def Let_def split: option.splits httpOutcome.splits)

text \<open>
  C3.  The delivery client that \<open>main\<close> builds from a configuration with a password
  (the copy of \<open>src/unnamed/part_000\<close>) never uses HTTP Basic authentication: with a
  token and a password configured its request carries the Bearer header, and with a
  password alone it carries no \<open>Authorization\<close> header at all.  The second copy of the
  package, on the same credentials, sends the Basic header both times.
\<close>

theorem sendRequest_ignores_password:
  "authOf (snd (sendRequest envOK (notifierOfConfig cfgBoth Map.empty None)
      ''title'' ''body'' ''3'' ''warning'' 0)) = [Some ''Bearer tk_1''] \<and>
   authOf (snd (sendRequest envOK (notifierOfConfig cfgPasswordOnly Map.empty None)
      ''title'' ''body'' ''3'' ''warning'' 0)) = [None] \<and>
   authOf (snd (sendRequest2 envOK (sampleNotifier2 cfgBoth)
      ''title'' ''body'' ''3'' ''warning'' 0)) = [Some ''Basic dXNlcjpwYXNz''] \<and>
   authOf (snd (sendRequest2 envOK (sampleNotifier2 cfgPasswordOnly)
      ''title'' ''body'' ''3'' ''warning'' 0)) = [Some ''Basic dXNlcjpwYXNz'']"
  by (simp add: sendRequest_def sendRequest2_def notifierOfConfig_def sampleNotifier2_def
      NewNotifier_def NewNotifier2_def cfgBoth_def cfgPasswordOnly_def envOK_def basicAuth_def
      TrimSuffix_def Let_def)

section \<open>Properties of the title and the body of a notification\<close>

lemma formatTitle_agency:
  "formatTitle n msg =
     (let agency =
            (case capcodeLookup n of
               None \<Rightarrow> msgAgency msg
             | Some l \<Rightarrow>
                 (case msgCapcodes msg of
                    [] \<Rightarrow> msgAgency msg
                  | first # others \<Rightarrow>
                      (case Get l first of Some info \<Rightarrow> Agency info | None \<Rightarrow> msgAgency msg)))
      in if agency = '''' then siren @ '' P2000'' else siren @ '' P2000 '' @ agency)"
  by (simp add: formatTitle_def Let_def)

lemma formatTitle_ignores_body:
  "formatTitle n (msg\<lparr>msgMessage := body\<rparr>) = formatTitle n msg"
  by (simp add: formatTitle_def Let_def split: option.splits list.splits)

lemma formatTitle2_body:
  "formatTitle2 n msg =
     (if msgMessage msg = '''' then siren @ '' P2000'' else siren @ '' '' @ msgMessage msg)"
  by (simp add: formatTitle2_def Let_def)

lemma agencyLabel2_first_capcode:
  "agencyLabel2 n msg =
     (case (case capcodeLookup2 n of
              None \<Rightarrow> None
            | Some l \<Rightarrow> (case msgCapcodes msg of [] \<Rightarrow> None | first # others \<Rightarrow> Get l first)) of
        Some info \<Rightarrow> Agency info
      | None \<Rightarrow> ''overig'')"
  by (simp add: agencyLabel2_def split: option.splits list.splits)

lemma HasPrefix_append: "HasPrefix (p @ rest) p"
  by (induction p) simp_all

lemma formatMessage2_starts_with_agency:
  "HasPrefix (formatMessage2 n msg) (agencyLabel2 n msg @ newline @ newline)"
  unfolding formatMessage2_def
  using HasPrefix_append [of "agencyLabel2 n msg @ newline @ newline"] by simp

lemma formatMessage_starts_with_body:
  "HasPrefix (formatMessage n msg) (msgMessage msg @ newline @ newline)"
  unfolding formatMessage_def
  using HasPrefix_append [of "msgMessage msg @ newline @ newline"] by simp

text \<open>
  C9.  In the copy of \<open>src/unnamed/part_000\<close> the title is not built from the body of
  the message: for a message with the body \<open>Brand woning\<close> and no agency it is the
  placeholder, and with the agency \<open>Brandweer\<close> it is made of that agency.  The body
  of the notification starts with the body of the message and holds no agency label,
  so no label \<open>overig\<close> for a message without a lookup match.  The second copy of the
  package builds the title from the body and starts the notification with \<open>overig\<close>.
\<close>

theorem formatTitle_from_agency:
  "formatTitle sampleNotifier sampleMessage = siren @ '' P2000'' \<and>
   formatTitle sampleNotifier agencyMessage = siren @ '' P2000 Brandweer'' \<and>
   formatMessage sampleNotifier sampleMessage =
     ''Brand woning'' @ newline @ newline @ ''Capcode Details:'' @ newline
       @ ''Capcode: 0101001'' @ newline \<and>
   msgMessage sampleMessage = ''Brand woning'' \<and>
   formatTitle2 (sampleNotifier2 cfgBoth) sampleMessage = siren @ '' Brand woning'' \<and>
   formatMessage2 (sampleNotifier2 cfgBoth) sampleMessage =
     ''overig'' @ newline @ newline @ ''Capcode Details:'' @ newline"
  by (simp add: formatTitle_def formatMessage_def capcodeLines_def formatTitle2_def
      formatMessage2_def capcodeLines2_def agencyLabel2_def sampleNotifier_def
      sampleNotifier2_def NewNotifier_def NewNotifier2_def sampleMessage_def agencyMessage_def
      cfgBoth_def Let_def)

end
